theory Spec2Isabelle
  imports Complex_Main
begin

section \<open>Values, rows and tables of the embedded relational store\<close>

text \<open>
  The persistence layer (\<^verbatim>\<open>database.ts\<close>, \<^verbatim>\<open>storage.ts\<close>) talks to an in-memory SQLite
  database through sql.js.  A stored value is NULL, a number or a text.  JavaScript has one
  number type, so the model has one constructor for numbers; they are rationals (the
  doubles without NaN and the infinities, rounding not modelled).  Identifiers, ratings and
  counts are integers embedded with \<open>of_int\<close>.
\<close>

datatype sqlval = Null | Num rat | Text string

text \<open>
  A row lists its columns in schema order.  \<open>col r c\<close> reads column \<open>c\<close>; a column the
  row does not carry reads as NULL.
\<close>

type_synonym row = "(string \<times> sqlval) list"

definition col :: "row \<Rightarrow> string \<Rightarrow> sqlval" where
  "col r c = (case map_of r c of None \<Rightarrow> Null | Some v \<Rightarrow> v)"

definition set_col :: "string \<Rightarrow> sqlval \<Rightarrow> row \<Rightarrow> row" where
  "set_col c v r = map (\<lambda>(k, x). if k = c then (k, v) else (k, x)) r"

text \<open>
  A table is the list of its rows in scan order together with the counter SQLite keeps in
  \<^verbatim>\<open>sqlite_sequence\<close> for an AUTOINCREMENT key (the largest rowid ever handed out).
  A database maps each table name to its table.
\<close>

record tbl =
  t_rows :: "row list"
  t_seq :: int

type_synonym database = "string \<Rightarrow> tbl"

definition empty_db :: database where
  "empty_db = (\<lambda>_. \<lparr>t_rows = [], t_seq = 0\<rparr>)"

subsection \<open>The schema of \<^verbatim>\<open>createTables\<close>\<close>

datatype dflt = NoDefault | DefaultValue sqlval | DefaultNow

record column_def =
  cname :: string
  notnull :: bool
  cdefault :: dflt

text \<open>
  \<open>intpk\<close> names the INTEGER PRIMARY KEY column (the alias of the rowid) and says whether
  it is AUTOINCREMENT; \<open>uniques\<close> lists the column sets of the other PRIMARY KEY and UNIQUE
  constraints.  FOREIGN KEY clauses are not listed: sql.js opens the database with foreign
  key enforcement off and the application never turns it on.
\<close>

record table_def =
  tname :: string
  tcols :: "column_def list"
  intpk :: "(string \<times> bool) option"
  uniques :: "string list list"

definition plain :: "string \<Rightarrow> column_def" where
  "plain n = \<lparr>cname = n, notnull = False, cdefault = NoDefault\<rparr>"

definition required :: "string \<Rightarrow> column_def" where
  "required n = \<lparr>cname = n, notnull = True, cdefault = NoDefault\<rparr>"

definition defaulted :: "string \<Rightarrow> dflt \<Rightarrow> column_def" where
  "defaulted n d = \<lparr>cname = n, notnull = False, cdefault = d\<rparr>"

definition users_table :: table_def where
  "users_table = \<lparr>tname = ''users'',
     tcols = [plain ''id'', required ''login'', plain ''avatar_url'', plain ''name'',
              defaulted ''created_at'' DefaultNow],
     intpk = None, uniques = [ [''id''] ]\<rparr>"

definition settings_table :: table_def where
  "settings_table = \<lparr>tname = ''settings'',
     tcols = [plain ''id'', required ''key'', plain ''value'',
              defaulted ''created_at'' DefaultNow, defaulted ''updated_at'' DefaultNow],
     intpk = Some (''id'', False), uniques = [ [''key''] ]\<rparr>"

definition movies_table :: table_def where
  "movies_table = \<lparr>tname = ''movies'',
     tcols = [plain ''id'', required ''title'', plain ''overview'', plain ''poster_path'',
              plain ''backdrop_path'', plain ''release_date'', plain ''vote_average'',
              plain ''genre_ids'', plain ''genres'', defaulted ''created_at'' DefaultNow],
     intpk = Some (''id'', False), uniques = []\<rparr>"

definition tv_shows_table :: table_def where
  "tv_shows_table = \<lparr>tname = ''tv_shows'',
     tcols = [plain ''id'', required ''name'', plain ''overview'', plain ''poster_path'',
              plain ''backdrop_path'', plain ''first_air_date'', plain ''vote_average'',
              plain ''genre_ids'', plain ''genres'', plain ''number_of_seasons'',
              plain ''number_of_episodes'', defaulted ''created_at'' DefaultNow],
     intpk = Some (''id'', False), uniques = []\<rparr>"

definition watched_movies_table :: table_def where
  "watched_movies_table = \<lparr>tname = ''watched_movies'',
     tcols = [plain ''id'', required ''user_id'', required ''movie_id'',
              defaulted ''rating'' (DefaultValue (Num 0)),
              defaulted ''watched_date'' DefaultNow, plain ''notes'',
              defaulted ''created_at'' DefaultNow],
     intpk = Some (''id'', True), uniques = [ [''user_id'', ''movie_id''] ]\<rparr>"

definition watched_shows_table :: table_def where
  "watched_shows_table = \<lparr>tname = ''watched_shows'',
     tcols = [plain ''id'', required ''user_id'', required ''show_id'',
              defaulted ''rating'' (DefaultValue (Num 0)),
              defaulted ''status'' (DefaultValue (Text ''watching'')),
              plain ''watched_episodes'', plain ''notes'',
              defaulted ''created_at'' DefaultNow, defaulted ''updated_at'' DefaultNow],
     intpk = Some (''id'', True), uniques = [ [''user_id'', ''show_id''] ]\<rparr>"

definition watchlist_table :: table_def where
  "watchlist_table = \<lparr>tname = ''watchlist'',
     tcols = [plain ''id'', required ''user_id'', required ''item_type'', required ''item_id'',
              defaulted ''added_date'' DefaultNow,
              defaulted ''priority'' (DefaultValue (Num 0)), plain ''notes''],
     intpk = Some (''id'', True), uniques = [ [''user_id'', ''item_type'', ''item_id''] ]\<rparr>"

definition schema :: "table_def list" where
  "schema = [users_table, settings_table, movies_table, tv_shows_table, watched_movies_table,
             watched_shows_table, watchlist_table]"

definition find_table :: "string \<Rightarrow> table_def option" where
  "find_table n = find (\<lambda>t. tname t = n) schema"

definition col_names :: "table_def \<Rightarrow> string list" where
  "col_names td = map cname (tcols td)"

subsection \<open>Statements\<close>

text \<open>
  The SQL texts of \<^verbatim>\<open>storage.ts\<close> are written as syntax trees.  A column is named with
  the alias of its table (the table's own name where the SQL text gives no alias); the
  \<open>i\<close>-th \<^verbatim>\<open>?\<close> of a text is \<open>Param i\<close>, counted from 0.  A WHERE or ON clause is the
  list of its equalities, joined by AND.
\<close>

datatype operand = Column string string | Param nat | Literal sqlval | CurrentTimestamp

datatype cond = Eq operand operand

datatype jkind = Inner | LeftOuter

datatype proj = Star string | As operand string

datatype stmt =
    Select "proj list" "string \<times> string" "(jkind \<times> (string \<times> string) \<times> cond list) list"
      "cond list" "(operand \<times> bool) option" "nat option"
  | InsertOrReplace string "string list" "operand list"
  | Update string "(string \<times> operand) list" "cond list"
  | Delete string "cond list"

datatype error =
    EngineLoadFailed
  | SnapshotUnparsable
  | NotADatabase
  | SyntaxError
  | NoSuchTable
  | NoSuchColumn
  | NotNullFailed string
  | UniqueFailed
  | DatatypeMismatch
  | BindUndefined
  | BindRange
  | JSONSyntaxError
  | ProfileNotFound

subsection \<open>Evaluation of operands and conditions\<close>

text \<open>
  An environment gives each alias in scope its current row, or \<open>None\<close> for the side of a
  LEFT JOIN that found no partner (all its columns read as NULL).  A parameter that was
  never bound reads as NULL, as in SQLite.  An equality holds only between two equal
  non-NULL values; a comparison with NULL is not true.
\<close>

type_synonym env = "(string \<times> row option) list"

fun eval_operand :: "sqlval list \<Rightarrow> string \<Rightarrow> env \<Rightarrow> operand \<Rightarrow> sqlval" where
  "eval_operand bs now e (Column a c) =
     (case map_of e a of Some (Some r) \<Rightarrow> col r c | _ \<Rightarrow> Null)"
| "eval_operand bs now e (Param i) = (if i < length bs then bs ! i else Null)"
| "eval_operand bs now e (Literal v) = v"
| "eval_operand bs now e CurrentTimestamp = Text now"

fun holds :: "sqlval list \<Rightarrow> string \<Rightarrow> env \<Rightarrow> cond \<Rightarrow> bool" where
  "holds bs now e (Eq a b) =
     (let x = eval_operand bs now e a; y = eval_operand bs now e b
      in x \<noteq> Null \<and> y \<noteq> Null \<and> x = y)"

definition all_hold :: "sqlval list \<Rightarrow> string \<Rightarrow> cond list \<Rightarrow> env \<Rightarrow> bool" where
  "all_hold bs now cs e = list_all (holds bs now e) cs"

subsection \<open>Compiling a statement\<close>

text \<open>
  \<^verbatim>\<open>db.prepare(sql)\<close> fails on a text that is not a statement over the schema.  An UPDATE
  with no assignment (\<^verbatim>\<open>UPDATE users SET  WHERE id = ?\<close>) is a syntax error.
\<close>

type_synonym scope = "(string \<times> table_def) list"

fun operand_ok :: "scope \<Rightarrow> operand \<Rightarrow> bool" where
  "operand_ok sc (Column a c) =
     (case map_of sc a of None \<Rightarrow> False | Some td \<Rightarrow> c \<in> set (col_names td))"
| "operand_ok sc _ = True"

fun cond_ok :: "scope \<Rightarrow> cond \<Rightarrow> bool" where
  "cond_ok sc (Eq a b) = (operand_ok sc a \<and> operand_ok sc b)"

fun proj_ok :: "scope \<Rightarrow> proj \<Rightarrow> bool" where
  "proj_ok sc (Star a) = (map_of sc a \<noteq> None)"
| "proj_ok sc (As x n) = operand_ok sc x"

fun scope_of :: "(string \<times> string) list \<Rightarrow> scope option" where
  "scope_of [] = Some []"
| "scope_of ((t, a) # rest) =
     (case find_table t of None \<Rightarrow> None
      | Some td \<Rightarrow> (case scope_of rest of None \<Rightarrow> None | Some sc \<Rightarrow> Some ((a, td) # sc)))"

fun check_stmt :: "stmt \<Rightarrow> error option" where
  "check_stmt (Select ps src joins wh ob lm) =
     (case scope_of (src # map (\<lambda>(k, s, on). s) joins) of None \<Rightarrow> Some NoSuchTable
      | Some sc \<Rightarrow>
          if list_all (proj_ok sc) ps \<and> list_all (\<lambda>(k, s, on). list_all (cond_ok sc) on) joins
             \<and> list_all (cond_ok sc) wh
             \<and> (case ob of None \<Rightarrow> True | Some (x, d) \<Rightarrow> operand_ok sc x)
          then (if ps = [] then Some SyntaxError else None)
          else Some NoSuchColumn)"
| "check_stmt (InsertOrReplace t cs vs) =
     (case find_table t of None \<Rightarrow> Some NoSuchTable
      | Some td \<Rightarrow>
          if \<not> list_all (\<lambda>c. c \<in> set (col_names td)) cs \<or> \<not> list_all (operand_ok []) vs
          then Some NoSuchColumn
          else if length cs \<noteq> length vs \<or> cs = [] then Some SyntaxError else None)"
| "check_stmt (Update t sets wh) =
     (if sets = [] then Some SyntaxError
      else case find_table t of None \<Rightarrow> Some NoSuchTable
      | Some td \<Rightarrow>
          if list_all (\<lambda>(c, x). c \<in> set (col_names td) \<and> operand_ok [(t, td)] x) sets
             \<and> list_all (cond_ok [(t, td)]) wh
          then None else Some NoSuchColumn)"
| "check_stmt (Delete t wh) =
     (case find_table t of None \<Rightarrow> Some NoSuchTable
      | Some td \<Rightarrow> if list_all (cond_ok [(t, td)]) wh then None else Some NoSuchColumn)"

text \<open>The number of \<^verbatim>\<open>?\<close> placeholders of a statement.\<close>

fun operand_params :: "operand \<Rightarrow> nat" where
  "operand_params (Param i) = 1"
| "operand_params _ = 0"

fun cond_params :: "cond \<Rightarrow> nat" where
  "cond_params (Eq a b) = operand_params a + operand_params b"

fun proj_params :: "proj \<Rightarrow> nat" where
  "proj_params (Star a) = 0"
| "proj_params (As x n) = operand_params x"

fun nparams :: "stmt \<Rightarrow> nat" where
  "nparams (Select ps src joins wh ob lm) =
     sum_list (map proj_params ps)
     + sum_list (map (\<lambda>(k, s, on). sum_list (map cond_params on)) joins)
     + sum_list (map cond_params wh)
     + (case ob of None \<Rightarrow> 0 | Some (x, d) \<Rightarrow> operand_params x)"
| "nparams (InsertOrReplace t cs vs) = sum_list (map operand_params vs)"
| "nparams (Update t sets wh) =
     sum_list (map (\<lambda>(c, x). operand_params x) sets) + sum_list (map cond_params wh)"
| "nparams (Delete t wh) = sum_list (map cond_params wh)"

subsection \<open>Running a SELECT\<close>

text \<open>
  Values are ordered as SQLite orders them: NULL first, then numbers by value, then texts
  byte by byte.  ORDER BY is a stable insertion sort on the scan order (SQLite leaves the
  order of ties open; the model fixes it).
\<close>

fun text_le :: "string \<Rightarrow> string \<Rightarrow> bool" where
  "text_le [] ys = True"
| "text_le (x # xs) [] = False"
| "text_le (x # xs) (y # ys) =
     ((of_char x :: nat) < of_char y \<or> (x = y \<and> text_le xs ys))"

fun sql_le :: "sqlval \<Rightarrow> sqlval \<Rightarrow> bool" where
  "sql_le Null y = True"
| "sql_le (Num a) Null = False"
| "sql_le (Num a) (Num b) = (a \<le> b)"
| "sql_le (Num a) (Text t) = True"
| "sql_le (Text s) (Text t) = text_le s t"
| "sql_le (Text s) y = False"

fun insert_by :: "('a \<Rightarrow> 'a \<Rightarrow> bool) \<Rightarrow> 'a \<Rightarrow> 'a list \<Rightarrow> 'a list" where
  "insert_by le x [] = [x]"
| "insert_by le x (y # ys) = (if le x y then x # y # ys else y # insert_by le x ys)"

definition sort_by :: "('a \<Rightarrow> 'a \<Rightarrow> bool) \<Rightarrow> 'a list \<Rightarrow> 'a list" where
  "sort_by le xs = foldr (insert_by le) xs []"

definition order_envs ::
  "sqlval list \<Rightarrow> string \<Rightarrow> (operand \<times> bool) option \<Rightarrow> env list \<Rightarrow> env list" where
  "order_envs bs now ob es =
     (case ob of None \<Rightarrow> es
      | Some (x, desc) \<Rightarrow>
          sort_by (\<lambda>e1 e2. if desc
                     then sql_le (eval_operand bs now e2 x) (eval_operand bs now e1 x)
                     else sql_le (eval_operand bs now e1 x) (eval_operand bs now e2 x)) es)"

definition join_step ::
  "sqlval list \<Rightarrow> string \<Rightarrow> database \<Rightarrow> jkind \<times> (string \<times> string) \<times> cond list
     \<Rightarrow> env list \<Rightarrow> env list" where
  "join_step bs now d j es =
     (case j of (k, (t, a), on) \<Rightarrow>
        concat (map (\<lambda>e.
          let ms = filter (all_hold bs now on) (map (\<lambda>r. e @ [(a, Some r)]) (t_rows (d t)))
          in if ms = [] \<and> k = LeftOuter then [e @ [(a, None)] ] else ms) es))"

fun project :: "sqlval list \<Rightarrow> string \<Rightarrow> scope \<Rightarrow> env \<Rightarrow> proj \<Rightarrow> row" where
  "project bs now sc e (Star a) =
     (case map_of sc a of None \<Rightarrow> []
      | Some td \<Rightarrow> map (\<lambda>c. (c, eval_operand bs now e (Column a c))) (col_names td))"
| "project bs now sc e (As x n) = [(n, eval_operand bs now e x)]"

definition run_select ::
  "proj list \<Rightarrow> string \<times> string \<Rightarrow> (jkind \<times> (string \<times> string) \<times> cond list) list
     \<Rightarrow> cond list \<Rightarrow> (operand \<times> bool) option \<Rightarrow> nat option
     \<Rightarrow> sqlval list \<Rightarrow> string \<Rightarrow> database \<Rightarrow> row list" where
  "run_select ps src joins wh ob lm bs now d =
     (let sc = (case scope_of (src # map (\<lambda>(k, s, on). s) joins) of None \<Rightarrow> [] | Some sc \<Rightarrow> sc);
          es0 = map (\<lambda>r. [(snd src, Some r)]) (t_rows (d (fst src)));
          es1 = fold (join_step bs now d) joins es0;
          es2 = filter (all_hold bs now wh) es1;
          es3 = order_envs bs now ob es2;
          es4 = (case lm of None \<Rightarrow> es3 | Some n \<Rightarrow> take n es3)
      in map (\<lambda>e. concat (map (project bs now sc e) ps)) es4)"

subsection \<open>Running INSERT OR REPLACE, UPDATE and DELETE\<close>

definition default_of :: "string \<Rightarrow> dflt \<Rightarrow> sqlval" where
  "default_of now d =
     (case d of NoDefault \<Rightarrow> Null | DefaultValue v \<Rightarrow> v | DefaultNow \<Rightarrow> Text now)"

text \<open>
  The row an INSERT builds: a listed column takes its value, an omitted one its default.
  Under OR REPLACE a NULL in a NOT NULL column is replaced by the column's default, when
  it has one.
\<close>

definition new_row :: "table_def \<Rightarrow> (string \<times> sqlval) list \<Rightarrow> string \<Rightarrow> row" where
  "new_row td given now =
     map (\<lambda>c. (cname c,
            (let v = (case map_of given (cname c) of
                        None \<Rightarrow> default_of now (cdefault c) | Some v \<Rightarrow> v)
             in if v = Null \<and> notnull c then default_of now (cdefault c) else v)))
         (tcols td)"

definition rowid_of :: "string \<Rightarrow> row \<Rightarrow> int" where
  "rowid_of c r = (case col r c of Num q \<Rightarrow> \<lfloor>q\<rfloor> | _ \<Rightarrow> 0)"

definition max_rowid :: "string \<Rightarrow> row list \<Rightarrow> int" where
  "max_rowid c rs = fold max (map (rowid_of c) rs) 0"

text \<open>
  The INTEGER PRIMARY KEY: a NULL key is replaced by a fresh rowid, one more than the
  largest in the table and, under AUTOINCREMENT, than the largest ever used; a number that
  is not an integer, or a text, is a datatype mismatch.  Rowids are unbounded integers here
  (SQLite's are 64-bit).
\<close>

definition assign_rowid :: "table_def \<Rightarrow> tbl \<Rightarrow> row \<Rightarrow> error + (row \<times> int)" where
  "assign_rowid td t r =
     (case intpk td of
        None \<Rightarrow> Inr (r, t_seq t)
      | Some (c, auto) \<Rightarrow>
          (case col r c of
             Null \<Rightarrow>
               (let n = (if auto then max (t_seq t) (max_rowid c (t_rows t))
                         else max_rowid c (t_rows t)) + 1
                in Inr (set_col c (Num (of_int n)) r, if auto then n else t_seq t))
           | Num q \<Rightarrow>
               if of_int \<lfloor>q\<rfloor> = q
               then Inr (r, if auto then max (t_seq t) \<lfloor>q\<rfloor> else t_seq t)
               else Inl DatatypeMismatch
           | Text s \<Rightarrow> Inl DatatypeMismatch))"

definition keys :: "table_def \<Rightarrow> string list list" where
  "keys td = (case intpk td of None \<Rightarrow> [] | Some (c, auto) \<Rightarrow> [ [c] ]) @ uniques td"

text \<open>
  Two rows conflict when they agree, with no NULL, on all columns of one key.
\<close>

definition conflict :: "string list list \<Rightarrow> row \<Rightarrow> row \<Rightarrow> bool" where
  "conflict ks r1 r2 =
     list_ex (\<lambda>k. list_all (\<lambda>c. col r1 c \<noteq> Null \<and> col r2 c = col r1 c) k) ks"

definition null_violation :: "table_def \<Rightarrow> row \<Rightarrow> string option" where
  "null_violation td r =
     map_option cname (find (\<lambda>c. notnull c \<and> col r (cname c) = Null) (tcols td))"

definition run_insert ::
  "table_def \<Rightarrow> string list \<Rightarrow> operand list \<Rightarrow> sqlval list \<Rightarrow> string \<Rightarrow> tbl \<Rightarrow> error + tbl"
  where
  "run_insert td cs vs bs now t =
     (case assign_rowid td t (new_row td (zip cs (map (eval_operand bs now []) vs)) now) of
        Inl e \<Rightarrow> Inl e
      | Inr (r, sq) \<Rightarrow>
          (case null_violation td r of
             Some c \<Rightarrow> Inl (NotNullFailed c)
           | None \<Rightarrow>
               Inr \<lparr>t_rows = filter (\<lambda>old. \<not> conflict (keys td) r old) (t_rows t) @ [r],
                    t_seq = sq\<rparr>))"

text \<open>
  UPDATE rewrites the rows its WHERE clause selects and aborts, leaving the table as it
  was, when a rewritten row breaks NOT NULL, the integer key or a key's uniqueness.
\<close>

definition bad_rowid :: "table_def \<Rightarrow> row \<Rightarrow> bool" where
  "bad_rowid td r =
     (case intpk td of None \<Rightarrow> False
      | Some (c, auto) \<Rightarrow> (case col r c of Num q \<Rightarrow> of_int \<lfloor>q\<rfloor> \<noteq> q | _ \<Rightarrow> True))"

fun uniq_ok :: "string list list \<Rightarrow> (bool \<times> row) list \<Rightarrow> bool" where
  "uniq_ok ks [] = True"
| "uniq_ok ks ((b, r) # rest) =
     (list_all (\<lambda>(b', r'). \<not> ((b \<or> b') \<and> conflict ks r r')) rest \<and> uniq_ok ks rest)"

definition run_update ::
  "table_def \<Rightarrow> (string \<times> operand) list \<Rightarrow> cond list \<Rightarrow> sqlval list \<Rightarrow> string \<Rightarrow> tbl
     \<Rightarrow> error + tbl" where
  "run_update td sets wh bs now t =
     (let marked = map (\<lambda>r.
            let e = [(tname td, Some r)]
            in if all_hold bs now wh e
               then (True, fold (\<lambda>(c, x). set_col c (eval_operand bs now e x)) sets r)
               else (False, r)) (t_rows t)
      in case find (\<lambda>(b, r). b \<and> null_violation td r \<noteq> None) marked of
           Some (b, r) \<Rightarrow> Inl (NotNullFailed (the (null_violation td r)))
         | None \<Rightarrow>
             if list_ex (\<lambda>(b, r). b \<and> bad_rowid td r) marked then Inl DatatypeMismatch
             else if \<not> uniq_ok (keys td) marked then Inl UniqueFailed
             else Inr (t\<lparr>t_rows := map snd marked\<rparr>))"

definition run_delete :: "table_def \<Rightarrow> cond list \<Rightarrow> sqlval list \<Rightarrow> string \<Rightarrow> tbl \<Rightarrow> tbl" where
  "run_delete td wh bs now t =
     t\<lparr>t_rows := filter (\<lambda>r. \<not> all_hold bs now wh [(tname td, Some r)]) (t_rows t)\<rparr>"

subsection \<open>Stepping a prepared statement\<close>

text \<open>
  \<open>sql_step s bs now d\<close> runs the compiled statement \<open>s\<close> to completion with the bound
  values \<open>bs\<close>: it yields the result rows and the database afterwards, or the error SQLite
  raises, in which case the database is as before.
\<close>

fun sql_step ::
  "stmt \<Rightarrow> sqlval list \<Rightarrow> string \<Rightarrow> database \<Rightarrow> error + (row list \<times> database)" where
  "sql_step (Select ps src joins wh ob lm) bs now d =
     Inr (run_select ps src joins wh ob lm bs now d, d)"
| "sql_step (InsertOrReplace t cs vs) bs now d =
     (case find_table t of None \<Rightarrow> Inl NoSuchTable
      | Some td \<Rightarrow>
          (case run_insert td cs vs bs now (d t) of
             Inl e \<Rightarrow> Inl e | Inr t' \<Rightarrow> Inr ([], d(t := t'))))"
| "sql_step (Update t sets wh) bs now d =
     (case find_table t of None \<Rightarrow> Inl NoSuchTable
      | Some td \<Rightarrow>
          (case run_update td sets wh bs now (d t) of
             Inl e \<Rightarrow> Inl e | Inr t' \<Rightarrow> Inr ([], d(t := t'))))"
| "sql_step (Delete t wh) bs now d =
     (case find_table t of None \<Rightarrow> Inl NoSuchTable
      | Some td \<Rightarrow> Inr ([], d(t := run_delete td wh bs now (d t))))"

section \<open>The store handle and its two primitives (\<^verbatim>\<open>database.ts\<close>)\<close>

text \<open>
  The module keeps the handle \<^verbatim>\<open>db\<close> and the flag \<^verbatim>\<open>isInitialized\<close>; the snapshot lives
  in browser storage under \<^verbatim>\<open>popcorn_track_db\<close>.  A handle is an open database or bytes
  that SQLite refuses (\<open>Corrupt\<close>: \<^verbatim>\<open>new SQL.Database(bytes)\<close> accepts them and the first
  statement fails).  A stored snapshot is text that \<^verbatim>\<open>JSON.parse\<close> rejects or the image of a
  handle.  Three facts come from the environment: whether the engine's WebAssembly loads
  (\<open>engine_loads\<close>), whether exporting and storing the snapshot succeeds (\<open>persist_ok\<close>),
  and the value of \<^verbatim>\<open>CURRENT_TIMESTAMP\<close>, read from \<open>clock\<close> at the running \<open>tick\<close>, which
  advances with every statement.
\<close>

datatype handle = Corrupt | Open database

datatype stored = Unparsable | Image handle

record world =
  db :: "handle option"
  isInitialized :: bool
  localStorage_db :: "stored option"
  engine_loads :: bool
  persist_ok :: bool
  clock :: "nat \<Rightarrow> string"
  tick :: nat

text \<open>
  An asynchronous operation either rejects with an error or resolves with a value; in both
  cases the module state it changed on the way stays changed.
\<close>

type_synonym 'a io = "world \<Rightarrow> (error + 'a) \<times> world"

definition bind_io :: "'a io \<Rightarrow> ('a \<Rightarrow> 'b io) \<Rightarrow> 'b io" where
  "bind_io m f w = (case m w of (Inl e, w') \<Rightarrow> (Inl e, w') | (Inr x, w') \<Rightarrow> f x w')"

definition return_io :: "'a \<Rightarrow> 'a io" where
  "return_io x w = (Inr x, w)"

text \<open>
  \<^verbatim>\<open>createTables\<close> runs the seven CREATE TABLE IF NOT EXISTS statements and the four
  CREATE INDEX IF NOT EXISTS statements.  Every database of the model carries the tables of
  \<open>schema\<close>, so on an open database they change nothing; on bytes that are no database
  the first of them throws.
\<close>

fun createTables :: "handle \<Rightarrow> error + handle" where
  "createTables Corrupt = Inl NotADatabase"
| "createTables (Open d) = Inr (Open d)"

definition initDatabase :: "handle io" where
  "initDatabase w =
     (if db w \<noteq> None \<and> isInitialized w then (Inr (the (db w)), w)
      else if \<not> engine_loads w then (Inl EngineLoadFailed, w)
      else case localStorage_db w of
             Some Unparsable \<Rightarrow> (Inl SnapshotUnparsable, w)
           | saved \<Rightarrow>
               (let h = (case saved of Some (Image h) \<Rightarrow> h | _ \<Rightarrow> Open empty_db);
                    w1 = w\<lparr>db := Some h\<rparr>
                in case createTables h of
                     Inl e \<Rightarrow> (Inl e, w1)
                   | Inr h' \<Rightarrow> (Inr h', w1\<lparr>db := Some h', isInitialized := True\<rparr>)))"

text \<open>
  \<^verbatim>\<open>saveDatabase\<close> returns at once without a handle; otherwise it exports and stores the
  snapshot inside a \<^verbatim>\<open>try\<close> whose \<^verbatim>\<open>catch\<close> only logs.
\<close>

definition saveDatabase :: "unit io" where
  "saveDatabase w =
     (case db w of None \<Rightarrow> (Inr (), w)
      | Some h \<Rightarrow>
          if persist_ok w then (Inr (), w\<lparr>localStorage_db := Some (Image h)\<rparr>)
          else (Inr (), w))"

fun prepare :: "handle \<Rightarrow> stmt \<Rightarrow> error + database" where
  "prepare Corrupt s = Inl NotADatabase"
| "prepare (Open d) s = (case check_stmt s of Some e \<Rightarrow> Inl e | None \<Rightarrow> Inr d)"

text \<open>
  \<^verbatim>\<open>stmt.bind(array)\<close> binds the values in order.  sql.js throws on \<^verbatim>\<open>undefined\<close>
  (\<open>None\<close> here) and SQLite on a position beyond the statement's placeholders; positions
  that receive no value stay NULL.
\<close>

fun bind_values :: "nat \<Rightarrow> nat \<Rightarrow> sqlval option list \<Rightarrow> error + sqlval list" where
  "bind_values n i [] = Inr []"
| "bind_values n i (None # ps) = Inl BindUndefined"
| "bind_values n i (Some v # ps) =
     (if n \<le> i then Inl BindRange
      else case bind_values n (Suc i) ps of Inl e \<Rightarrow> Inl e | Inr vs \<Rightarrow> Inr (v # vs))"

text \<open>
  Both primitives initialise the store when there is no handle yet.  \<open>open_handle\<close> is
  that common prefix; it also reads the clock for the statement about to run.
\<close>

definition open_handle :: "(handle \<times> string) io" where
  "open_handle w =
     (case (case db w of None \<Rightarrow> initDatabase w | Some h \<Rightarrow> (Inr h, w)) of
        (Inl e, w1) \<Rightarrow> (Inl e, w1)
      | (Inr h, w1) \<Rightarrow> (Inr (h, clock w1 (tick w1)), w1\<lparr>tick := Suc (tick w1)\<rparr>))"

text \<open>
  \<^verbatim>\<open>getAsObject\<close> turns a result row into an object; where two result columns share a
  name the later one overwrites the earlier.
\<close>

type_synonym obj = "string \<Rightarrow> sqlval option"

definition getAsObject :: "row \<Rightarrow> obj" where
  "getAsObject r = map_of (rev r)"

text \<open>
  \<^verbatim>\<open>executeQuery(sql, params)\<close> prepares the statement and steps it until it is
  exhausted.  It never passes \<open>params\<close> to \<^verbatim>\<open>prepare\<close> or \<^verbatim>\<open>bind\<close>: the statement runs with
  no value bound.
\<close>

definition executeQuery :: "stmt \<Rightarrow> sqlval option list \<Rightarrow> obj list io" where
  "executeQuery sql params =
     bind_io open_handle (\<lambda>(h, now) w.
       case prepare h sql of
         Inl e \<Rightarrow> (Inl e, w)
       | Inr d \<Rightarrow>
           (case sql_step sql [] now d of
              Inl e \<Rightarrow> (Inl e, w)
            | Inr (rs, d') \<Rightarrow>
                bind_io saveDatabase (\<lambda>_. return_io (map getAsObject rs))
                  (w\<lparr>db := Some (Open d')\<rparr>)))"

text \<open>
  \<^verbatim>\<open>executeNonQuery(sql, params)\<close> prepares the statement, runs it once with \<open>params\<close>
  bound (\<^verbatim>\<open>stmt.run(params)\<close>) and saves the snapshot.
\<close>

definition executeNonQuery :: "stmt \<Rightarrow> sqlval option list \<Rightarrow> unit io" where
  "executeNonQuery sql params =
     bind_io open_handle (\<lambda>(h, now) w.
       case prepare h sql of
         Inl e \<Rightarrow> (Inl e, w)
       | Inr d \<Rightarrow>
           (case bind_values (nparams sql) 0 params of
              Inl e \<Rightarrow> (Inl e, w)
            | Inr bs \<Rightarrow>
                (case sql_step sql bs now d of
                   Inl e \<Rightarrow> (Inl e, w)
                 | Inr (rs, d') \<Rightarrow> saveDatabase (w\<lparr>db := Some (Open d')\<rparr>))))"

section \<open>The persistence facade (\<^verbatim>\<open>storage.ts\<close>)\<close>

subsection \<open>Domain types\<close>

text \<open>
  The interfaces of the application's type module.  A field of type \<^verbatim>\<open>string | null\<close> is
  an option whose \<open>None\<close> is \<^verbatim>\<open>null\<close>; an optional field (\<^verbatim>\<open>genres?\<close>,
  \<^verbatim>\<open>number_of_seasons?\<close>, \<^verbatim>\<open>number_of_episodes?\<close>, \<^verbatim>\<open>movie?\<close>, \<^verbatim>\<open>show?\<close>) is an option whose
  \<open>None\<close> is \<^verbatim>\<open>undefined\<close>.
\<close>

record User =
  u_id :: string
  u_login :: string
  u_avatar_url :: string
  u_name :: string

record Genre =
  g_id :: int
  g_name :: string

record Movie =
  m_id :: int
  m_title :: string
  m_overview :: string
  m_poster_path :: "string option"
  m_backdrop_path :: "string option"
  m_release_date :: string
  m_vote_average :: rat
  m_genre_ids :: "int list"
  m_genres :: "Genre list option"

record TVShow =
  s_id :: int
  s_name :: string
  s_overview :: string
  s_poster_path :: "string option"
  s_backdrop_path :: "string option"
  s_first_air_date :: string
  s_vote_average :: rat
  s_genre_ids :: "int list"
  s_genres :: "Genre list option"
  s_number_of_seasons :: "int option"
  s_number_of_episodes :: "int option"

datatype Status = Watching | Completed | Dropped

datatype MediaType = MovieType | TvType

fun status_text :: "Status \<Rightarrow> string" where
  "status_text Watching = ''watching''"
| "status_text Completed = ''completed''"
| "status_text Dropped = ''dropped''"

fun type_text :: "MediaType \<Rightarrow> string" where
  "type_text MovieType = ''movie''"
| "type_text TvType = ''tv''"

record WatchedMovie =
  wm_id :: int
  wm_movie :: Movie
  wm_rating :: int
  wm_watched_date :: string
  wm_user_id :: string

record WatchedShow =
  ws_id :: int
  ws_show :: TVShow
  ws_rating :: int
  ws_status :: Status
  ws_watched_episodes :: "int list"
  ws_user_id :: string
  ws_updated_date :: string

record WatchlistItem =
  wl_id :: int
  wl_type :: MediaType
  wl_item_id :: int
  wl_movie :: "Movie option"
  wl_show :: "TVShow option"
  wl_added_date :: string
  wl_user_id :: string

text \<open>\<^verbatim>\<open>Partial<User>\<close>: each field present or not.\<close>

record UserPatch =
  p_id :: "string option"
  p_login :: "string option"
  p_avatar_url :: "string option"
  p_name :: "string option"

subsection \<open>Values handed to \<^verbatim>\<open>bind\<close>\<close>

definition js_string :: "string \<Rightarrow> sqlval option" where
  "js_string s = Some (Text s)"

definition js_int :: "int \<Rightarrow> sqlval option" where
  "js_int i = Some (Num (of_int i))"

definition js_number :: "rat \<Rightarrow> sqlval option" where
  "js_number q = Some (Num q)"

definition js_nullable :: "string option \<Rightarrow> sqlval option" where
  "js_nullable x = Some (case x of None \<Rightarrow> Null | Some s \<Rightarrow> Text s)"

definition js_optional_int :: "int option \<Rightarrow> sqlval option" where
  "js_optional_int x = map_option (\<lambda>i. Num (of_int i)) x"

subsection \<open>\<^verbatim>\<open>JSON.stringify\<close> on the arrays the facade encodes\<close>

text \<open>
  \<^verbatim>\<open>JSON.stringify\<close> is applied to arrays of integers and to arrays of genre objects with
  the keys \<^verbatim>\<open>id\<close> and \<^verbatim>\<open>name\<close>, in that order.  Integers print in decimal (as JavaScript
  prints integers of fewer than 22 digits); a string is quoted with the escapes of the JSON grammar.
\<close>

fun digits :: "nat \<Rightarrow> string" where
  "digits n = (if n < 10 then [char_of (48 + n)] else digits (n div 10) @ [char_of (48 + n mod 10)])"

definition show_int :: "int \<Rightarrow> string" where
  "show_int i = (if i < 0 then CHR ''-'' # digits (nat (- i)) else digits (nat i))"

definition hex_digit :: "nat \<Rightarrow> char" where
  "hex_digit n = (if n < 10 then char_of (48 + n) else char_of (87 + n))"

definition escape_char :: "char \<Rightarrow> string" where
  "escape_char c =
     (let n = (of_char c :: nat)
      in if n = 34 then [CHR 0x5C, CHR 0x22]
         else if n = 92 then [CHR 0x5C, CHR 0x5C]
         else if n = 8 then [CHR 0x5C, CHR ''b'']
         else if n = 12 then [CHR 0x5C, CHR ''f'']
         else if n = 10 then [CHR 0x5C, CHR ''n'']
         else if n = 13 then [CHR 0x5C, CHR ''r'']
         else if n = 9 then [CHR 0x5C, CHR ''t'']
         else if n < 32 then [CHR 0x5C, CHR ''u'', CHR ''0'', CHR ''0'',
                              hex_digit (n div 16), hex_digit (n mod 16)]
         else [c])"

definition quote :: "string \<Rightarrow> string" where
  "quote s = CHR 0x22 # concat (map escape_char s) @ [CHR 0x22]"

fun commas :: "string list \<Rightarrow> string" where
  "commas [] = []"
| "commas [x] = x"
| "commas (x # y # ys) = x @ '','' @ commas (y # ys)"

definition stringify_numbers :: "int list \<Rightarrow> string" where
  "stringify_numbers xs = ''['' @ commas (map show_int xs) @ '']''"

definition stringify_genres :: "Genre list \<Rightarrow> string" where
  "stringify_genres gs =
     ''['' @ commas (map (\<lambda>g. ''{'' @ quote ''id'' @ '':'' @ show_int (g_id g) @ '',''
                                  @ quote ''name'' @ '':'' @ quote (g_name g) @ ''}'') gs) @ '']''"

subsection \<open>\<^verbatim>\<open>JSON.parse\<close> on a stored column\<close>

text \<open>
  \<^verbatim>\<open>JSON.parse\<close> belongs to the platform; the reading operations take it as the parameter
  \<open>parse\<close>.  \<^verbatim>\<open>JSON.parse(x || '[]')\<close> parses the text \<^verbatim>\<open>[]\<close> when \<open>x\<close> is null, the
  empty string or zero, and \<open>x\<close> otherwise; a non-zero number is first printed and then
  reads back as itself.
\<close>

datatype json =
    JNull | JBool bool | JNumber rat | JString string
  | JArray "json list" | JObject "(string \<times> json) list"

type_synonym parser = "string \<Rightarrow> error + json"

definition parse_or_empty :: "parser \<Rightarrow> sqlval \<Rightarrow> error + json" where
  "parse_or_empty parse x =
     (case x of
        Null \<Rightarrow> parse ''[]''
      | Text s \<Rightarrow> if s = [] then parse ''[]'' else parse s
      | Num q \<Rightarrow> if q = 0 then parse ''[]'' else Inr (JNumber q))"

text \<open>
  A property of a result object.  A property the object lacks is \<^verbatim>\<open>undefined\<close> in
  JavaScript and NULL here; every property read below is a column of its query.
\<close>

definition field :: "obj \<Rightarrow> string \<Rightarrow> sqlval" where
  "field r n = (case r n of None \<Rightarrow> Null | Some v \<Rightarrow> v)"

text \<open>\<^verbatim>\<open>results.map(f)\<close> where \<open>f\<close> may throw: the first exception ends the map.\<close>

fun map_throwing :: "('a \<Rightarrow> error + 'b) \<Rightarrow> 'a list \<Rightarrow> error + 'b list" where
  "map_throwing f [] = Inr []"
| "map_throwing f (x # xs) =
     (case f x of Inl e \<Rightarrow> Inl e
      | Inr y \<Rightarrow> (case map_throwing f xs of Inl e \<Rightarrow> Inl e | Inr ys \<Rightarrow> Inr (y # ys)))"

definition lift_io :: "error + 'a \<Rightarrow> 'a io" where
  "lift_io r w = (r, w)"

subsection \<open>Profiles\<close>

definition setUser :: "User \<Rightarrow> unit io" where
  "setUser user =
     executeNonQuery
       (InsertOrReplace ''users'' [''id'', ''login'', ''avatar_url'', ''name'']
          [Param 0, Param 1, Param 2, Param 3])
       [js_string (u_id user), js_string (u_login user), js_string (u_avatar_url user),
        js_string (u_name user)]"

text \<open>
  \<^verbatim>\<open>Object.keys(updates)\<close> and \<^verbatim>\<open>Object.values(updates)\<close>: the fields present, here in the
  order of the interface (an UPDATE of distinct columns does not depend on their order).
\<close>

definition entries :: "UserPatch \<Rightarrow> (string \<times> string) list" where
  "entries updates =
     (case p_id updates of None \<Rightarrow> [] | Some v \<Rightarrow> [(''id'', v)])
     @ (case p_login updates of None \<Rightarrow> [] | Some v \<Rightarrow> [(''login'', v)])
     @ (case p_avatar_url updates of None \<Rightarrow> [] | Some v \<Rightarrow> [(''avatar_url'', v)])
     @ (case p_name updates of None \<Rightarrow> [] | Some v \<Rightarrow> [(''name'', v)])"

definition updateUser :: "string \<Rightarrow> UserPatch \<Rightarrow> unit io" where
  "updateUser userId updates =
     (let ks = map fst (entries updates);
          setClause = map (\<lambda>(i, k). (k, Param i)) (zip [0 ..< length ks] ks);
          vals = map (\<lambda>(k, v). js_string v) (entries updates) @ [js_string userId]
      in executeNonQuery
           (Update ''users'' setClause [Eq (Column ''users'' ''id'') (Param (length ks))])
           vals)"

definition delete_by_user :: "string \<Rightarrow> string \<Rightarrow> stmt" where
  "delete_by_user t c = Delete t [Eq (Column t c) (Param 0)]"

definition deleteUser :: "string \<Rightarrow> unit io" where
  "deleteUser userId =
     bind_io (executeNonQuery (delete_by_user ''watched_movies'' ''user_id'') [js_string userId])
       (\<lambda>_. bind_io
          (executeNonQuery (delete_by_user ''watched_shows'' ''user_id'') [js_string userId])
       (\<lambda>_. bind_io
          (executeNonQuery (delete_by_user ''watchlist'' ''user_id'') [js_string userId])
       (\<lambda>_. executeNonQuery (delete_by_user ''users'' ''id'') [js_string userId])))"

subsection \<open>The metadata cache\<close>

definition cacheMovie :: "Movie \<Rightarrow> unit io" where
  "cacheMovie movie =
     executeNonQuery
       (InsertOrReplace ''movies''
          [''id'', ''title'', ''overview'', ''poster_path'', ''backdrop_path'', ''release_date'',
           ''vote_average'', ''genre_ids'', ''genres'']
          [Param 0, Param 1, Param 2, Param 3, Param 4, Param 5, Param 6, Param 7, Param 8])
       [js_int (m_id movie), js_string (m_title movie), js_string (m_overview movie),
        js_nullable (m_poster_path movie), js_nullable (m_backdrop_path movie),
        js_string (m_release_date movie), js_number (m_vote_average movie),
        js_string (stringify_numbers (m_genre_ids movie)),
        js_string (stringify_genres (case m_genres movie of None \<Rightarrow> [] | Some gs \<Rightarrow> gs))]"

definition cacheTVShow :: "TVShow \<Rightarrow> unit io" where
  "cacheTVShow show =
     executeNonQuery
       (InsertOrReplace ''tv_shows''
          [''id'', ''name'', ''overview'', ''poster_path'', ''backdrop_path'', ''first_air_date'',
           ''vote_average'', ''genre_ids'', ''genres'', ''number_of_seasons'',
           ''number_of_episodes'']
          [Param 0, Param 1, Param 2, Param 3, Param 4, Param 5, Param 6, Param 7, Param 8,
           Param 9, Param 10])
       [js_int (s_id show), js_string (s_name show), js_string (s_overview show),
        js_nullable (s_poster_path show), js_nullable (s_backdrop_path show),
        js_string (s_first_air_date show), js_number (s_vote_average show),
        js_string (stringify_numbers (s_genre_ids show)),
        js_string (stringify_genres (case s_genres show of None \<Rightarrow> [] | Some gs \<Rightarrow> gs)),
        js_optional_int (s_number_of_seasons show), js_optional_int (s_number_of_episodes show)]"

text \<open>
  \<^verbatim>\<open>getCachedMovie\<close> and \<^verbatim>\<open>getCachedTVShow\<close> return the row's own properties with
  \<^verbatim>\<open>genre_ids\<close> and \<^verbatim>\<open>genres\<close> replaced by the decoded values, or null without a row.
\<close>

record Cached =
  c_row :: obj
  c_genre_ids :: json
  c_genres :: json

definition decode_cached :: "parser \<Rightarrow> obj \<Rightarrow> error + Cached" where
  "decode_cached parse r =
     (case parse_or_empty parse (field r ''genre_ids'') of
        Inl e \<Rightarrow> Inl e
      | Inr ids \<Rightarrow>
          (case parse_or_empty parse (field r ''genres'') of
             Inl e \<Rightarrow> Inl e
           | Inr gs \<Rightarrow> Inr \<lparr>c_row = r, c_genre_ids = ids, c_genres = gs\<rparr>))"

definition select_by_id :: "string \<Rightarrow> stmt" where
  "select_by_id t = Select [Star t] (t, t) [] [Eq (Column t ''id'') (Param 0)] None None"

definition getCachedMovie :: "parser \<Rightarrow> int \<Rightarrow> Cached option io" where
  "getCachedMovie parse movieId =
     bind_io (executeQuery (select_by_id ''movies'') [js_int movieId]) (\<lambda>results.
       case results of
         [] \<Rightarrow> return_io None
       | movie # _ \<Rightarrow> lift_io (map_sum id Some (decode_cached parse movie)))"

definition getCachedTVShow :: "parser \<Rightarrow> int \<Rightarrow> Cached option io" where
  "getCachedTVShow parse showId =
     bind_io (executeQuery (select_by_id ''tv_shows'') [js_int showId]) (\<lambda>results.
       case results of
         [] \<Rightarrow> return_io None
       | show # _ \<Rightarrow> lift_io (map_sum id Some (decode_cached parse show)))"

subsection \<open>Objects built by the reading operations\<close>

text \<open>
  The properties copied from a result row keep the row's values; the decoded JSON columns
  are JSON values.
\<close>

record MovieRead =
  mr_id :: sqlval
  mr_title :: sqlval
  mr_overview :: sqlval
  mr_poster_path :: sqlval
  mr_backdrop_path :: sqlval
  mr_release_date :: sqlval
  mr_vote_average :: sqlval
  mr_genre_ids :: json
  mr_genres :: json

record TVShowRead =
  sr_id :: sqlval
  sr_name :: sqlval
  sr_overview :: sqlval
  sr_poster_path :: sqlval
  sr_backdrop_path :: sqlval
  sr_first_air_date :: sqlval
  sr_vote_average :: sqlval
  sr_genre_ids :: json
  sr_genres :: json
  sr_number_of_seasons :: sqlval
  sr_number_of_episodes :: sqlval

record WatchedMovieRead =
  wmr_id :: sqlval
  wmr_rating :: sqlval
  wmr_watched_date :: sqlval
  wmr_user_id :: sqlval
  wmr_movie :: MovieRead

record WatchedShowRead =
  wsr_id :: sqlval
  wsr_rating :: sqlval
  wsr_status :: sqlval
  wsr_watched_episodes :: json
  wsr_user_id :: sqlval
  wsr_updated_date :: sqlval
  wsr_show :: TVShowRead

record WatchlistItemRead =
  wlr_id :: sqlval
  wlr_type :: sqlval
  wlr_item_id :: sqlval
  wlr_added_date :: sqlval
  wlr_user_id :: sqlval
  wlr_movie :: "MovieRead option"
  wlr_show :: "TVShowRead option"

subsection \<open>Watched movies\<close>

definition watched_movie_of_row :: "parser \<Rightarrow> obj \<Rightarrow> error + WatchedMovieRead" where
  "watched_movie_of_row parse r =
     (case parse_or_empty parse (field r ''genre_ids'') of
        Inl e \<Rightarrow> Inl e
      | Inr ids \<Rightarrow>
          (case parse_or_empty parse (field r ''genres'') of
             Inl e \<Rightarrow> Inl e
           | Inr gs \<Rightarrow>
               Inr \<lparr>wmr_id = field r ''id'', wmr_rating = field r ''rating'',
                    wmr_watched_date = field r ''watched_date'',
                    wmr_user_id = field r ''user_id'',
                    wmr_movie =
                      \<lparr>mr_id = field r ''movie_id'', mr_title = field r ''title'',
                       mr_overview = field r ''overview'',
                       mr_poster_path = field r ''poster_path'',
                       mr_backdrop_path = field r ''backdrop_path'',
                       mr_release_date = field r ''release_date'',
                       mr_vote_average = field r ''vote_average'',
                       mr_genre_ids = ids, mr_genres = gs\<rparr>\<rparr>))"

definition select_watched_movies :: stmt where
  "select_watched_movies =
     Select [Star ''wm'', Star ''m''] (''watched_movies'', ''wm'')
       [(Inner, (''movies'', ''m''), [Eq (Column ''wm'' ''movie_id'') (Column ''m'' ''id'')])]
       [Eq (Column ''wm'' ''user_id'') (Param 0)]
       (Some (Column ''wm'' ''watched_date'', True)) None"

definition getWatchedMovies :: "parser \<Rightarrow> string \<Rightarrow> WatchedMovieRead list io" where
  "getWatchedMovies parse userId =
     bind_io (executeQuery select_watched_movies [js_string userId]) (\<lambda>results.
       lift_io (map_throwing (watched_movie_of_row parse) results))"

definition addWatchedMovie :: "WatchedMovie \<Rightarrow> unit io" where
  "addWatchedMovie movie =
     bind_io (cacheMovie (wm_movie movie)) (\<lambda>_.
       executeNonQuery
         (InsertOrReplace ''watched_movies'' [''user_id'', ''movie_id'', ''rating'', ''watched_date'']
            [Param 0, Param 1, Param 2, Param 3])
         [js_string (wm_user_id movie), js_int (m_id (wm_movie movie)),
          js_int (wm_rating movie), js_string (wm_watched_date movie)])"

subsection \<open>Watched shows\<close>

definition watched_show_of_row :: "parser \<Rightarrow> obj \<Rightarrow> error + WatchedShowRead" where
  "watched_show_of_row parse r =
     (case parse_or_empty parse (field r ''watched_episodes'') of
        Inl e \<Rightarrow> Inl e
      | Inr eps \<Rightarrow>
     (case parse_or_empty parse (field r ''genre_ids'') of
        Inl e \<Rightarrow> Inl e
      | Inr ids \<Rightarrow>
     (case parse_or_empty parse (field r ''genres'') of
        Inl e \<Rightarrow> Inl e
      | Inr gs \<Rightarrow>
          Inr \<lparr>wsr_id = field r ''id'', wsr_rating = field r ''rating'',
               wsr_status = field r ''status'', wsr_watched_episodes = eps,
               wsr_user_id = field r ''user_id'', wsr_updated_date = field r ''updated_at'',
               wsr_show =
                 \<lparr>sr_id = field r ''show_id'', sr_name = field r ''name'',
                  sr_overview = field r ''overview'',
                  sr_poster_path = field r ''poster_path'',
                  sr_backdrop_path = field r ''backdrop_path'',
                  sr_first_air_date = field r ''first_air_date'',
                  sr_vote_average = field r ''vote_average'',
                  sr_genre_ids = ids, sr_genres = gs,
                  sr_number_of_seasons = field r ''number_of_seasons'',
                  sr_number_of_episodes = field r ''number_of_episodes''\<rparr>\<rparr>)))"

definition select_watched_shows :: stmt where
  "select_watched_shows =
     Select [Star ''ws'', Star ''s''] (''watched_shows'', ''ws'')
       [(Inner, (''tv_shows'', ''s''), [Eq (Column ''ws'' ''show_id'') (Column ''s'' ''id'')])]
       [Eq (Column ''ws'' ''user_id'') (Param 0)]
       (Some (Column ''ws'' ''updated_at'', True)) None"

definition getWatchedShows :: "parser \<Rightarrow> string \<Rightarrow> WatchedShowRead list io" where
  "getWatchedShows parse userId =
     bind_io (executeQuery select_watched_shows [js_string userId]) (\<lambda>results.
       lift_io (map_throwing (watched_show_of_row parse) results))"

definition addWatchedShow :: "WatchedShow \<Rightarrow> unit io" where
  "addWatchedShow show =
     bind_io (cacheTVShow (ws_show show)) (\<lambda>_.
       executeNonQuery
         (InsertOrReplace ''watched_shows''
            [''user_id'', ''show_id'', ''rating'', ''status'', ''watched_episodes'', ''updated_at'']
            [Param 0, Param 1, Param 2, Param 3, Param 4, Param 5])
         [js_string (ws_user_id show), js_int (s_id (ws_show show)), js_int (ws_rating show),
          js_string (status_text (ws_status show)),
          js_string (stringify_numbers (ws_watched_episodes show)),
          js_string (ws_updated_date show)])"

subsection \<open>Watchlist\<close>

definition watchlist_item_of_row :: "parser \<Rightarrow> obj \<Rightarrow> error + WatchlistItemRead" where
  "watchlist_item_of_row parse r =
     (case (if field r ''item_type'' = Text ''movie''
            then (case parse_or_empty parse (field r ''movie_genre_ids'') of
                    Inl e \<Rightarrow> Inl e
                  | Inr ids \<Rightarrow>
                      (case parse_or_empty parse (field r ''movie_genres'') of
                         Inl e \<Rightarrow> Inl e
                       | Inr gs \<Rightarrow>
                           Inr (Some
                             \<lparr>mr_id = field r ''item_id'', mr_title = field r ''movie_title'',
                              mr_overview = field r ''movie_overview'',
                              mr_poster_path = field r ''movie_poster'',
                              mr_backdrop_path = field r ''movie_backdrop'',
                              mr_release_date = field r ''release_date'',
                              mr_vote_average = field r ''movie_rating'',
                              mr_genre_ids = ids, mr_genres = gs\<rparr>)))
            else Inr None) of
        Inl e \<Rightarrow> Inl e
      | Inr movie \<Rightarrow>
     (case (if field r ''item_type'' = Text ''tv''
            then (case parse_or_empty parse (field r ''show_genre_ids'') of
                    Inl e \<Rightarrow> Inl e
                  | Inr ids \<Rightarrow>
                      (case parse_or_empty parse (field r ''show_genres'') of
                         Inl e \<Rightarrow> Inl e
                       | Inr gs \<Rightarrow>
                           Inr (Some
                             \<lparr>sr_id = field r ''item_id'', sr_name = field r ''show_name'',
                              sr_overview = field r ''show_overview'',
                              sr_poster_path = field r ''show_poster'',
                              sr_backdrop_path = field r ''show_backdrop'',
                              sr_first_air_date = field r ''first_air_date'',
                              sr_vote_average = field r ''show_rating'',
                              sr_genre_ids = ids, sr_genres = gs,
                              sr_number_of_seasons = field r ''number_of_seasons'',
                              sr_number_of_episodes = field r ''number_of_episodes''\<rparr>)))
            else Inr None) of
        Inl e \<Rightarrow> Inl e
      | Inr show \<Rightarrow>
          Inr \<lparr>wlr_id = field r ''id'', wlr_type = field r ''item_type'',
               wlr_item_id = field r ''item_id'', wlr_added_date = field r ''added_date'',
               wlr_user_id = field r ''user_id'', wlr_movie = movie, wlr_show = show\<rparr>))"

definition select_watchlist :: stmt where
  "select_watchlist =
     Select
       [Star ''w'',
        As (Column ''m'' ''title'') ''movie_title'', As (Column ''m'' ''overview'') ''movie_overview'',
        As (Column ''m'' ''poster_path'') ''movie_poster'',
        As (Column ''m'' ''backdrop_path'') ''movie_backdrop'',
        As (Column ''m'' ''release_date'') ''release_date'',
        As (Column ''m'' ''vote_average'') ''movie_rating'',
        As (Column ''m'' ''genre_ids'') ''movie_genre_ids'',
        As (Column ''m'' ''genres'') ''movie_genres'',
        As (Column ''s'' ''name'') ''show_name'', As (Column ''s'' ''overview'') ''show_overview'',
        As (Column ''s'' ''poster_path'') ''show_poster'',
        As (Column ''s'' ''backdrop_path'') ''show_backdrop'',
        As (Column ''s'' ''first_air_date'') ''first_air_date'',
        As (Column ''s'' ''vote_average'') ''show_rating'',
        As (Column ''s'' ''genre_ids'') ''show_genre_ids'',
        As (Column ''s'' ''genres'') ''show_genres'',
        As (Column ''s'' ''number_of_seasons'') ''number_of_seasons'',
        As (Column ''s'' ''number_of_episodes'') ''number_of_episodes'']
       (''watchlist'', ''w'')
       [(LeftOuter, (''movies'', ''m''),
           [Eq (Column ''w'' ''item_type'') (Literal (Text ''movie'')),
            Eq (Column ''w'' ''item_id'') (Column ''m'' ''id'')]),
        (LeftOuter, (''tv_shows'', ''s''),
           [Eq (Column ''w'' ''item_type'') (Literal (Text ''tv'')),
            Eq (Column ''w'' ''item_id'') (Column ''s'' ''id'')])]
       [Eq (Column ''w'' ''user_id'') (Param 0)]
       (Some (Column ''w'' ''added_date'', True)) None"

definition getWatchlist :: "parser \<Rightarrow> string \<Rightarrow> WatchlistItemRead list io" where
  "getWatchlist parse userId =
     bind_io (executeQuery select_watchlist [js_string userId]) (\<lambda>results.
       lift_io (map_throwing (watchlist_item_of_row parse) results))"

definition addToWatchlist :: "WatchlistItem \<Rightarrow> unit io" where
  "addToWatchlist item =
     bind_io (case wl_movie item of None \<Rightarrow> return_io () | Some m \<Rightarrow> cacheMovie m) (\<lambda>_.
     bind_io (case wl_show item of None \<Rightarrow> return_io () | Some s \<Rightarrow> cacheTVShow s) (\<lambda>_.
       executeNonQuery
         (InsertOrReplace ''watchlist'' [''user_id'', ''item_type'', ''item_id'', ''added_date'']
            [Param 0, Param 1, Param 2, Param 3])
         [js_string (wl_user_id item), js_string (type_text (wl_type item)),
          js_int (wl_item_id item), js_string (wl_added_date item)]))"

section \<open>Profile state (\<^verbatim>\<open>AuthContext.tsx\<close>)\<close>

text \<open>
  The provider keeps the loaded profiles and the active one.  \<^verbatim>\<open>updateProfile\<close> looks the
  profile up in that list, merges the patch into it, derives the login again when a
  non-empty name is given, and writes the whole profile with \<^verbatim>\<open>storage.setUser\<close>.
  \<^verbatim>\<open>toLowerCase\<close> and the pattern \<^verbatim>\<open>\s+\<close> are modelled on ASCII.
\<close>

record auth =
  profiles :: "User list"
  user :: "User option"

definition lower_char :: "char \<Rightarrow> char" where
  "lower_char c =
     (let n = (of_char c :: nat) in if 65 \<le> n \<and> n \<le> 90 then char_of (n + 32) else c)"

definition toLowerCase :: "string \<Rightarrow> string" where
  "toLowerCase s = map lower_char s"

definition is_space :: "char \<Rightarrow> bool" where
  "is_space c = ((of_char c :: nat) \<in> {9, 10, 11, 12, 13, 32})"

function replace_spaces :: "string \<Rightarrow> string" where
  "replace_spaces [] = []"
| "replace_spaces (c # cs) =
     (if is_space c then CHR ''_'' # replace_spaces (dropWhile is_space cs)
      else c # replace_spaces cs)"
  by pat_completeness auto
termination
  by (relation "measure length") (auto simp: length_dropWhile_le less_Suc_eq_le)

fun findIndex :: "('a \<Rightarrow> bool) \<Rightarrow> 'a list \<Rightarrow> nat option" where
  "findIndex P [] = None"
| "findIndex P (x # xs) = (if P x then Some 0 else map_option Suc (findIndex P xs))"

definition merge_patch :: "User \<Rightarrow> UserPatch \<Rightarrow> User" where
  "merge_patch u updates =
     \<lparr>u_id = (case p_id updates of None \<Rightarrow> u_id u | Some v \<Rightarrow> v),
      u_login = (case p_login updates of None \<Rightarrow> u_login u | Some v \<Rightarrow> v),
      u_avatar_url = (case p_avatar_url updates of None \<Rightarrow> u_avatar_url u | Some v \<Rightarrow> v),
      u_name = (case p_name updates of None \<Rightarrow> u_name u | Some v \<Rightarrow> v)\<rparr>"

definition updateProfile ::
  "string \<Rightarrow> UserPatch \<Rightarrow> auth \<Rightarrow> world \<Rightarrow> (error + unit) \<times> auth \<times> world" where
  "updateProfile profileId updates a w =
     (case findIndex (\<lambda>p. u_id p = profileId) (profiles a) of
        None \<Rightarrow> (Inl ProfileNotFound, a, w)
      | Some profileIndex \<Rightarrow>
          (let merged = merge_patch (profiles a ! profileIndex) updates;
               updatedProfile =
                 (case p_name updates of
                    None \<Rightarrow> merged
                  | Some n \<Rightarrow>
                      if n = [] then merged
                      else merged\<lparr>u_login := replace_spaces (toLowerCase n)\<rparr>)
           in case setUser updatedProfile w of
                (Inl e, w') \<Rightarrow> (Inl e, a, w')
              | (Inr _, w') \<Rightarrow>
                  (Inr (),
                   a\<lparr>profiles := (profiles a)[profileIndex := updatedProfile],
                     user := (case user a of
                                None \<Rightarrow> None
                              | Some u \<Rightarrow>
                                  if u_id u = profileId then Some updatedProfile else Some u)\<rparr>,
                   w')))"

section \<open>Concrete inputs\<close>

text \<open>
  An instance of the \<open>parse\<close> parameter for closed statements: it reads the texts
  \<^verbatim>\<open>JSON.stringify\<close> writes for arrays of integers and rejects every other text.
\<close>

fun split_commas :: "string \<Rightarrow> string \<Rightarrow> string list" where
  "split_commas acc [] = [rev acc]"
| "split_commas acc (c # cs) =
     (if c = CHR '','' then rev acc # split_commas [] cs else split_commas (c # acc) cs)"

definition is_digit :: "char \<Rightarrow> bool" where
  "is_digit c = (48 \<le> (of_char c :: nat) \<and> (of_char c :: nat) \<le> 57)"

definition nat_literal :: "string \<Rightarrow> bool" where
  "nat_literal ds = (ds \<noteq> [] \<and> list_all is_digit ds \<and> (ds = ''0'' \<or> hd ds \<noteq> CHR ''0''))"

definition int_literal :: "string \<Rightarrow> bool" where
  "int_literal s =
     (if s \<noteq> [] \<and> hd s = CHR ''-'' then nat_literal (tl s) else nat_literal s)"

definition read_nat :: "string \<Rightarrow> nat" where
  "read_nat ds = foldl (\<lambda>n c. 10 * n + (of_char c - 48)) 0 ds"

definition read_int :: "string \<Rightarrow> int" where
  "read_int s =
     (if s \<noteq> [] \<and> hd s = CHR ''-'' then - int (read_nat (tl s)) else int (read_nat s))"

definition parse_int_array :: parser where
  "parse_int_array s =
     (if 2 \<le> length s \<and> hd s = CHR ''['' \<and> last s = CHR '']''
      then (let body = butlast (tl s)
            in if body = [] then Inr (JArray [])
               else if list_all int_literal (split_commas [] body)
               then Inr (JArray (map (\<lambda>p. JNumber (of_int (read_int p))) (split_commas [] body)))
               else Inl JSONSyntaxError)
      else Inl JSONSyntaxError)"

text \<open>
  A browser in which everything works, before the store is first used, and the store once
  the profile Alex has been created.
\<close>

definition fresh_world :: world where
  "fresh_world =
     \<lparr>db = None, isInitialized = False, localStorage_db = None, engine_loads = True,
      persist_ok = True, clock = (\<lambda>n. ''2024-05-01 10:00:00''), tick = 0\<rparr>"

definition alex :: User where
  "alex = \<lparr>u_id = ''profile_1'', u_login = ''alex'', u_avatar_url = ''https://ui-avatars.com/api/?name=Alex'',
           u_name = ''Alex''\<rparr>"

definition alex_row :: row where
  "alex_row = [(''id'', Text ''profile_1''), (''login'', Text ''alex''),
               (''avatar_url'', Text ''https://ui-avatars.com/api/?name=Alex''),
               (''name'', Text ''Alex''), (''created_at'', Text ''2024-05-01 10:00:00'')]"

definition alex_db :: database where
  "alex_db = empty_db(''users'' := \<lparr>t_rows = [alex_row], t_seq = 0\<rparr>)"

definition alex_world :: world where
  "alex_world =
     \<lparr>db = Some (Open alex_db), isInitialized = True,
      localStorage_db = Some (Image (Open alex_db)), engine_loads = True,
      persist_ok = True, clock = (\<lambda>n. ''2024-05-01 10:00:00''), tick = 1\<rparr>"

definition the_matrix :: Movie where
  "the_matrix =
     \<lparr>m_id = 603, m_title = ''The Matrix'', m_overview = ''A hacker learns the truth.'',
      m_poster_path = Some ''/matrix.jpg'', m_backdrop_path = None,
      m_release_date = ''1999-03-30'', m_vote_average = 41 / 5,
      m_genre_ids = [28, 878], m_genres = None\<rparr>"

section \<open>Reading the state\<close>

text \<open>
  The rows of a table in the open store and in the stored snapshot (no rows when there is
  none), and the state a statement leaves in memory: the clock has advanced and the handle
  holds the new database.
\<close>

definition store_rows :: "world \<Rightarrow> string \<Rightarrow> row list" where
  "store_rows w t = (case db w of Some (Open d) \<Rightarrow> t_rows (d t) | _ \<Rightarrow> [])"

definition snapshot_rows :: "world \<Rightarrow> string \<Rightarrow> row list" where
  "snapshot_rows w t =
     (case localStorage_db w of Some (Image (Open d)) \<Rightarrow> t_rows (d t) | _ \<Rightarrow> [])"

definition stepped :: "world \<Rightarrow> database \<Rightarrow> world" where
  "stepped w d' = w\<lparr>tick := Suc (tick w), db := Some (Open d')\<rparr>"

text \<open>
  What the statements of the facade leave in a table: a table without the rows of a
  profile, and the rows that \<open>cacheMovie\<close> and \<open>addWatchedMovie\<close> insert.
\<close>

definition purge :: "string \<Rightarrow> string \<Rightarrow> tbl \<Rightarrow> tbl" where
  "purge c p t = t\<lparr>t_rows := filter (\<lambda>r. col r c \<noteq> Text p) (t_rows t)\<rparr>"

definition movie_row :: "Movie \<Rightarrow> string \<Rightarrow> row" where
  "movie_row m now =
     [(''id'', Num (of_int (m_id m))), (''title'', Text (m_title m)),
      (''overview'', Text (m_overview m)),
      (''poster_path'', case m_poster_path m of None \<Rightarrow> Null | Some s \<Rightarrow> Text s),
      (''backdrop_path'', case m_backdrop_path m of None \<Rightarrow> Null | Some s \<Rightarrow> Text s),
      (''release_date'', Text (m_release_date m)), (''vote_average'', Num (m_vote_average m)),
      (''genre_ids'', Text (stringify_numbers (m_genre_ids m))),
      (''genres'', Text (stringify_genres (case m_genres m of None \<Rightarrow> [] | Some gs \<Rightarrow> gs))),
      (''created_at'', Text now)]"


text \<open>
  Further concrete inputs: a patch that renames a profile, the watchlist item of the
  scenario, two records of Alex having watched The Matrix, a show with three watched
  episodes, a store with a second profile, and a store whose cached movie carries text that
  is not JSON.
\<close>

definition rename_to_sam :: UserPatch where
  "rename_to_sam = \<lparr>p_id = None, p_login = None, p_avatar_url = None, p_name = Some ''Sam''\<rparr>"

definition empty_patch :: UserPatch where
  "empty_patch = \<lparr>p_id = None, p_login = None, p_avatar_url = None, p_name = None\<rparr>"

definition item603 :: WatchlistItem where
  "item603 =
     \<lparr>wl_id = 1714644000000, wl_type = MovieType, wl_item_id = 603,
      wl_movie = Some the_matrix, wl_show = None,
      wl_added_date = ''2024-05-02T10:00:00.000Z'', wl_user_id = ''profile_1''\<rparr>"



definition severance :: TVShow where
  "severance =
     \<lparr>s_id = 95396, s_name = ''Severance'', s_overview = ''Work and life, severed.'',
      s_poster_path = None, s_backdrop_path = None, s_first_air_date = ''2022-02-17'',
      s_vote_average = 42 / 5, s_genre_ids = [18, 80], s_genres = None,
      s_number_of_seasons = Some 2, s_number_of_episodes = Some 19\<rparr>"

definition watching_severance :: WatchedShow where
  "watching_severance =
     \<lparr>ws_id = 1714647600000, ws_show = severance, ws_rating = 4, ws_status = Watching,
      ws_watched_episodes = [1, 2, 3], ws_user_id = ''profile_1'',
      ws_updated_date = ''2024-05-02T11:00:00.000Z''\<rparr>"

definition sam_row :: row where
  "sam_row = [(''id'', Text ''profile_2''), (''login'', Text ''sam''),
              (''avatar_url'', Text ''https://ui-avatars.com/api/?name=Sam''),
              (''name'', Text ''Sam''), (''created_at'', Text ''2024-05-01 11:00:00'')]"

definition watched_by :: "string \<Rightarrow> int \<Rightarrow> row" where
  "watched_by p n =
     [(''id'', Num (of_int n)), (''user_id'', Text p), (''movie_id'', Num 603),
      (''rating'', Num 4), (''watched_date'', Text ''2024-05-02T11:00:00.000Z''),
      (''notes'', Null), (''created_at'', Text ''2024-05-02 11:00:00'')]"

definition listed_by :: "string \<Rightarrow> int \<Rightarrow> row" where
  "listed_by p n =
     [(''id'', Num (of_int n)), (''user_id'', Text p), (''item_type'', Text ''movie''),
      (''item_id'', Num 603), (''added_date'', Text ''2024-05-02T10:00:00.000Z''),
      (''priority'', Num 0), (''notes'', Null)]"

definition shared_db :: database where
  "shared_db = empty_db
     (''users'' := \<lparr>t_rows = [alex_row, sam_row], t_seq = 0\<rparr>,
      ''movies'' := \<lparr>t_rows = [movie_row the_matrix ''2024-05-02 10:00:00''], t_seq = 0\<rparr>,
      ''watched_movies'' :=
         \<lparr>t_rows = [watched_by ''profile_1'' 1, watched_by ''profile_2'' 2], t_seq = 2\<rparr>,
      ''watchlist'' :=
         \<lparr>t_rows = [listed_by ''profile_2'' 1, listed_by ''profile_1'' 2], t_seq = 2\<rparr>)"

definition shared_world :: world where
  "shared_world =
     \<lparr>db = Some (Open shared_db), isInitialized = True,
      localStorage_db = Some (Image (Open shared_db)), engine_loads = True,
      persist_ok = True, clock = (\<lambda>n. ''2024-05-04 09:00:00''), tick = 7\<rparr>"

definition damaged_movie_row :: row where
  "damaged_movie_row =
     [(''id'', Num 603), (''title'', Text ''The Matrix''), (''overview'', Null),
      (''poster_path'', Null), (''backdrop_path'', Null), (''release_date'', Null),
      (''vote_average'', Null), (''genre_ids'', Text ''[28,878''), (''genres'', Text ''[]''),
      (''created_at'', Text ''2024-05-02 10:00:00'')]"

definition damaged_db :: database where
  "damaged_db = empty_db
     (''users'' := \<lparr>t_rows = [alex_row], t_seq = 0\<rparr>,
      ''movies'' := \<lparr>t_rows = [damaged_movie_row], t_seq = 0\<rparr>,
      ''watched_movies'' := \<lparr>t_rows = [watched_by ''profile_1'' 1], t_seq = 1\<rparr>,
      ''watchlist'' := \<lparr>t_rows = [listed_by ''profile_1'' 1], t_seq = 1\<rparr>)"

definition damaged_world :: world where
  "damaged_world =
     \<lparr>db = Some (Open damaged_db), isInitialized = True,
      localStorage_db = Some (Image (Open damaged_db)), engine_loads = True,
      persist_ok = True, clock = (\<lambda>n. ''2024-05-04 09:00:00''), tick = 7\<rparr>"





definition severance_watch_row :: row where
  "severance_watch_row =
     [(''id'', Num 1), (''user_id'', Text ''profile_1''), (''show_id'', Num 95396),
      (''rating'', Num 4), (''status'', Text ''watching''),
      (''watched_episodes'', Text ''[1,2,3]''), (''notes'', Null),
      (''created_at'', Text ''2024-05-01 10:00:00''),
      (''updated_at'', Text ''2024-05-02T11:00:00.000Z'')]"

definition is_open :: "world \<Rightarrow> bool" where
  "is_open w = (case db w of Some (Open d) \<Rightarrow> True | _ \<Rightarrow> False)"

section \<open>The two primitives on an open store\<close>

lemma open_handle_open:
  "db w = Some h \<Longrightarrow> open_handle w = (Inr (h, clock w (tick w)), w\<lparr>tick := Suc (tick w)\<rparr>)"
  by (simp add: open_handle_def)

lemma saveDatabase_resolves: "fst (saveDatabase w) = Inr ()"
  by (simp add: saveDatabase_def split: option.splits)

lemma executeNonQuery_open:
  assumes "db w = Some (Open d)" and "check_stmt s = None"
    and "bind_values (nparams s) 0 ps = Inr bs"
    and "sql_step s bs (clock w (tick w)) d = Inr (rs, d')"
  shows "executeNonQuery s ps w = saveDatabase (stepped w d')"
  using assms by (simp add: executeNonQuery_def bind_io_def open_handle_open stepped_def)

lemma executeNonQuery_prepare_fails:
  assumes "db w = Some (Open d)" and "check_stmt s = Some e"
  shows "executeNonQuery s ps w = (Inl e, w\<lparr>tick := Suc (tick w)\<rparr>)"
  using assms by (simp add: executeNonQuery_def bind_io_def open_handle_open)

lemma executeQuery_open:
  assumes "db w = Some (Open d)" and "check_stmt s = None"
    and "sql_step s [] (clock w (tick w)) d = Inr (rs, d')"
  shows "executeQuery s ps w = (Inr (map getAsObject rs), snd (saveDatabase (stepped w d')))"
  using assms
  by (simp add: executeQuery_def bind_io_def open_handle_open stepped_def return_io_def
      saveDatabase_def split: option.splits)

section \<open>The read primitive never binds its parameters\<close>

text \<open>
  With no value bound, a WHERE clause that compares with a placeholder selects no row.
\<close>

lemma all_hold_unbound: "all_hold [] now (Eq x (Param i) # cs) e = False"
  by (simp add: all_hold_def Let_def)

lemma sort_by_Nil: "sort_by le [] = []"
  by (simp add: sort_by_def)

lemma run_select_unbound: "run_select ps src joins (Eq x (Param i) # cs) ob lm [] now d = []"
  by (simp add: run_select_def Let_def all_hold_unbound order_envs_def sort_by_Nil
      split: option.splits prod.splits)

lemma executeQuery_unbound:
  assumes "db w = Some (Open d)"
    and "check_stmt (Select ps src joins (Eq x (Param i) # cs) ob lm) = None"
  shows "executeQuery (Select ps src joins (Eq x (Param i) # cs) ob lm) params w
           = (Inr [], snd (saveDatabase (stepped w d)))"
  using executeQuery_open[OF assms, of "[]" d params]
  by (simp add: run_select_unbound)

lemma check_select_by_id_users: "check_stmt (select_by_id ''users'') = None"
  by code_simp

text \<open>
  C3.  For every statement \<open>q\<close>, every state \<open>w\<close> of the module and the browser, and any
  two parameter lists \<open>p1\<close> and \<open>p2\<close>, \<open>executeQuery q p1\<close> and \<open>executeQuery q p2\<close> give
  the same result and leave the same state: the parameters are never bound, so the
  statement runs with every placeholder NULL.
\<close>

theorem executeQuery_ignores_params: "executeQuery q p1 w = executeQuery q p2 w"
  by (simp add: executeQuery_def)

theorem executeQuery_ignores_params_witness:
  "executeQuery (select_by_id ''users'') [js_string ''profile_1''] alex_world
     = executeQuery (select_by_id ''users'') [js_string ''nobody''] alex_world
   \<and> fst (executeQuery (select_by_id ''users'') [js_string ''profile_1''] alex_world) = Inr []"
proof -
  have same: "executeQuery (select_by_id ''users'') [js_string ''profile_1''] alex_world
     = executeQuery (select_by_id ''users'') [js_string ''nobody''] alex_world"
    by (rule executeQuery_ignores_params)
  have none: "fst (executeQuery (select_by_id ''users'') [js_string ''profile_1''] alex_world)
     = Inr []"
    using executeQuery_unbound[of alex_world alex_db "[Star ''users'']" "(''users'', ''users'')"
        "[]" "Column ''users'' ''id''" 0 "[]" None None] check_select_by_id_users
    by (simp add: select_by_id_def alex_world_def)
  from same none show ?thesis by (rule conjI)
qed

section \<open>A failed snapshot does not fail the write\<close>

lemma initDatabase_persist:
  "fst (initDatabase (w\<lparr>persist_ok := b\<rparr>)) = fst (initDatabase w)"
  "snd (initDatabase (w\<lparr>persist_ok := b\<rparr>)) = (snd (initDatabase w))\<lparr>persist_ok := b\<rparr>"
  by (auto simp: initDatabase_def Let_def split: option.splits stored.splits sum.splits)

lemma open_handle_persist:
  "fst (open_handle (w\<lparr>persist_ok := b\<rparr>)) = fst (open_handle w)"
  "snd (open_handle (w\<lparr>persist_ok := b\<rparr>)) = (snd (open_handle w))\<lparr>persist_ok := b\<rparr>"
  using initDatabase_persist[of b w]
  by (auto simp: open_handle_def split: option.splits prod.splits sum.splits)

lemma executeNonQuery_persist:
  "fst (executeNonQuery s ps (w\<lparr>persist_ok := b\<rparr>)) = fst (executeNonQuery s ps w)"
  "db (snd (executeNonQuery s ps (w\<lparr>persist_ok := b\<rparr>))) = db (snd (executeNonQuery s ps w))"
  using open_handle_persist[of b w]
  by (auto simp: executeNonQuery_def bind_io_def saveDatabase_def
      split: option.splits prod.splits sum.splits)

lemma open_handle_snapshot: "localStorage_db (snd (open_handle w)) = localStorage_db w"
  by (auto simp: open_handle_def initDatabase_def Let_def
      split: option.splits prod.splits sum.splits stored.splits if_splits)

lemma open_handle_persist_ok: "persist_ok (snd (open_handle w)) = persist_ok w"
  by (auto simp: open_handle_def initDatabase_def Let_def
      split: option.splits prod.splits sum.splits stored.splits if_splits)

lemma executeNonQuery_not_persisted:
  "\<not> persist_ok w \<Longrightarrow> localStorage_db (snd (executeNonQuery s ps w)) = localStorage_db w"
  using open_handle_snapshot[of w] open_handle_persist_ok[of w]
  by (auto simp: executeNonQuery_def bind_io_def saveDatabase_def
      split: option.splits prod.splits sum.splits)

text \<open>
  C10.  \<open>saveDatabase\<close> always resolves.  Whether exporting and storing the snapshot
  fails or not, \<open>executeNonQuery\<close> gives the same outcome to its caller and leaves the same
  handle in memory; and when the snapshot fails, the stored snapshot is the one from before
  the call, also when the call resolved.  So a write reported as successful may be missing
  from the snapshot.
\<close>

theorem executeNonQuery_resolves_unpersisted:
  "fst (saveDatabase w) = Inr ()
   \<and> fst (executeNonQuery s ps (w\<lparr>persist_ok := False\<rparr>))
       = fst (executeNonQuery s ps (w\<lparr>persist_ok := True\<rparr>))
   \<and> db (snd (executeNonQuery s ps (w\<lparr>persist_ok := False\<rparr>)))
       = db (snd (executeNonQuery s ps (w\<lparr>persist_ok := True\<rparr>)))
   \<and> localStorage_db (snd (executeNonQuery s ps (w\<lparr>persist_ok := False\<rparr>)))
       = localStorage_db w"
  using executeNonQuery_persist[of s ps False w] executeNonQuery_persist[of s ps True w]
    executeNonQuery_not_persisted[of "w\<lparr>persist_ok := False\<rparr>" s ps] saveDatabase_resolves[of w]
  by simp

theorem executeNonQuery_resolves_unpersisted_witness:
  "(fst (saveDatabase alex_world) = Inr ()
    \<and> fst (executeNonQuery (delete_by_user ''users'' ''id'') [js_string ''profile_1'']
             (alex_world\<lparr>persist_ok := False\<rparr>))
        = fst (executeNonQuery (delete_by_user ''users'' ''id'') [js_string ''profile_1'']
             (alex_world\<lparr>persist_ok := True\<rparr>))
    \<and> db (snd (executeNonQuery (delete_by_user ''users'' ''id'') [js_string ''profile_1'']
             (alex_world\<lparr>persist_ok := False\<rparr>)))
        = db (snd (executeNonQuery (delete_by_user ''users'' ''id'') [js_string ''profile_1'']
             (alex_world\<lparr>persist_ok := True\<rparr>)))
    \<and> localStorage_db (snd (executeNonQuery (delete_by_user ''users'' ''id'')
             [js_string ''profile_1''] (alex_world\<lparr>persist_ok := False\<rparr>)))
        = localStorage_db alex_world)
   \<and> (fst (executeNonQuery (delete_by_user ''users'' ''id'') [js_string ''profile_1'']
             (alex_world\<lparr>persist_ok := False\<rparr>)) = Inr ()
      \<and> store_rows (snd (executeNonQuery (delete_by_user ''users'' ''id'')
             [js_string ''profile_1''] (alex_world\<lparr>persist_ok := False\<rparr>))) ''users'' = []
      \<and> snapshot_rows (snd (executeNonQuery (delete_by_user ''users'' ''id'')
             [js_string ''profile_1''] (alex_world\<lparr>persist_ok := False\<rparr>))) ''users''
          = [alex_row])"
proof -
  have general: "fst (saveDatabase alex_world) = Inr ()
    \<and> fst (executeNonQuery (delete_by_user ''users'' ''id'') [js_string ''profile_1'']
             (alex_world\<lparr>persist_ok := False\<rparr>))
        = fst (executeNonQuery (delete_by_user ''users'' ''id'') [js_string ''profile_1'']
             (alex_world\<lparr>persist_ok := True\<rparr>))
    \<and> db (snd (executeNonQuery (delete_by_user ''users'' ''id'') [js_string ''profile_1'']
             (alex_world\<lparr>persist_ok := False\<rparr>)))
        = db (snd (executeNonQuery (delete_by_user ''users'' ''id'') [js_string ''profile_1'']
             (alex_world\<lparr>persist_ok := True\<rparr>)))
    \<and> localStorage_db (snd (executeNonQuery (delete_by_user ''users'' ''id'')
             [js_string ''profile_1''] (alex_world\<lparr>persist_ok := False\<rparr>)))
        = localStorage_db alex_world"
    by (rule executeNonQuery_resolves_unpersisted)
  have here: "fst (executeNonQuery (delete_by_user ''users'' ''id'') [js_string ''profile_1'']
             (alex_world\<lparr>persist_ok := False\<rparr>)) = Inr ()
      \<and> store_rows (snd (executeNonQuery (delete_by_user ''users'' ''id'')
             [js_string ''profile_1''] (alex_world\<lparr>persist_ok := False\<rparr>))) ''users'' = []
      \<and> snapshot_rows (snd (executeNonQuery (delete_by_user ''users'' ''id'')
             [js_string ''profile_1''] (alex_world\<lparr>persist_ok := False\<rparr>))) ''users''
          = [alex_row]"
    by code_simp
  from general here show ?thesis by (rule conjI)
qed

section \<open>Updating a profile\<close>

lemma bind_io_eq: "m w = (Inr x, w') \<Longrightarrow> bind_io m f w = f x w'"
  by (simp add: bind_io_def)

lemma stepped_saved:
  "saveDatabase (stepped w d') = (Inr (), snd (saveDatabase (stepped w d')))"
  "db (snd (saveDatabase (stepped w d'))) = Some (Open d')"
  "tick (snd (saveDatabase (stepped w d'))) = Suc (tick w)"
  "clock (snd (saveDatabase (stepped w d'))) = clock w"
  by (simp_all add: saveDatabase_def stepped_def)

lemma find_table_names:
  "find_table ''users'' = Some users_table"
  "find_table ''watched_movies'' = Some watched_movies_table"
  "find_table ''watched_shows'' = Some watched_shows_table"
  "find_table ''watchlist'' = Some watchlist_table"
  "find_table ''movies'' = Some movies_table"
  "find_table ''tv_shows'' = Some tv_shows_table"
  by (simp_all add: find_table_def schema_def users_table_def settings_table_def movies_table_def
      tv_shows_table_def watched_movies_table_def watched_shows_table_def watchlist_table_def)

lemma tnames:
  "tname users_table = ''users''" "tname watched_movies_table = ''watched_movies''"
  "tname watched_shows_table = ''watched_shows''" "tname watchlist_table = ''watchlist''"
  "tname movies_table = ''movies''" "tname tv_shows_table = ''tv_shows''"
  by (simp_all add: users_table_def watched_movies_table_def watched_shows_table_def
      watchlist_table_def movies_table_def tv_shows_table_def)

lemma col_names_users:
  "col_names users_table = [''id'', ''login'', ''avatar_url'', ''name'', ''created_at'']"
  by (simp add: col_names_def users_table_def plain_def required_def defaulted_def)

lemma bind_values_defined:
  "i + length vs \<le> n \<Longrightarrow> bind_values n i (map Some vs) = Inr vs"
  by (induction vs arbitrary: i) auto

lemma updateUser_stmt:
  "updateUser userId updates =
     executeNonQuery
       (Update ''users''
          (map (\<lambda>(i, k). (k, Param i))
             (zip [0 ..< length (entries updates)] (map fst (entries updates))))
          [Eq (Column ''users'' ''id'') (Param (length (entries updates)))])
       (map Some (map (\<lambda>(k, v). Text v) (entries updates) @ [Text userId]))"
  by (simp add: updateUser_def Let_def js_string_def split_def comp_def)

lemma entries_empty:
  "entries updates = []
     \<longleftrightarrow> p_id updates = None \<and> p_login updates = None \<and> p_avatar_url updates = None
         \<and> p_name updates = None"
  by (auto simp: entries_def split: option.splits)

text \<open>
  C9.  With an empty update set the SET clause is empty and the statement does not
  compile.  \<open>updateUser\<close> then rejects whatever the state is, and changes nothing beyond
  what opening the store does; on an open store the error is SQLite's syntax error, the
  handle holds the same database and the snapshot is not rewritten.
\<close>

theorem updateUser_empty_rejected:
  assumes "p_id updates = None" and "p_login updates = None"
    and "p_avatar_url updates = None" and "p_name updates = None"
  shows "isl (fst (updateUser userId updates w))
     \<and> snd (updateUser userId updates w) = snd (open_handle w)
     \<and> (db w = Some (Open d) \<longrightarrow>
          fst (updateUser userId updates w) = Inl SyntaxError
          \<and> db (snd (updateUser userId updates w)) = Some (Open d)
          \<and> localStorage_db (snd (updateUser userId updates w)) = localStorage_db w)"
proof -
  have e: "entries updates = []"
    using assms by (simp add: entries_empty)
  let ?s = "Update ''users'' [] [Eq (Column ''users'' ''id'') (Param 0)]"
  have u: "updateUser userId updates = executeNonQuery ?s [Some (Text userId)]"
    unfolding updateUser_stmt e by simp
  have p: "\<And>h. isl (prepare h ?s)"
  proof -
    fix h show "isl (prepare h ?s)" by (cases h) simp_all
  qed
  have general: "isl (fst (executeNonQuery ?s [Some (Text userId)] w))
      \<and> snd (executeNonQuery ?s [Some (Text userId)] w) = snd (open_handle w)"
  proof (cases "open_handle w")
    case (Pair r w1)
    show ?thesis
    proof (cases r)
      case (Inl e)
      with Pair show ?thesis by (simp add: executeNonQuery_def bind_io_def)
    next
      case (Inr hn)
      obtain h now where hn: "hn = (h, now)" by (cases hn)
      from p[of h] obtain e where "prepare h ?s = Inl e" by (cases "prepare h ?s") simp_all
      with Pair Inr hn show ?thesis by (simp add: executeNonQuery_def bind_io_def)
    qed
  qed
  have opened: "db w = Some (Open d) \<longrightarrow>
          fst (executeNonQuery ?s [Some (Text userId)] w) = Inl SyntaxError
          \<and> db (snd (executeNonQuery ?s [Some (Text userId)] w)) = Some (Open d)
          \<and> localStorage_db (snd (executeNonQuery ?s [Some (Text userId)] w)) = localStorage_db w"
  proof
    assume o: "db w = Some (Open d)"
    have "check_stmt ?s = Some SyntaxError" by simp
    from executeNonQuery_prepare_fails[OF o this, of "[Some (Text userId)]"] o
    show "fst (executeNonQuery ?s [Some (Text userId)] w) = Inl SyntaxError
          \<and> db (snd (executeNonQuery ?s [Some (Text userId)] w)) = Some (Open d)
          \<and> localStorage_db (snd (executeNonQuery ?s [Some (Text userId)] w)) = localStorage_db w"
      by simp
  qed
  from general opened show ?thesis unfolding u by simp
qed

theorem updateUser_empty_rejected_witness:
  "fst (updateUser ''profile_1'' empty_patch alex_world) = Inl SyntaxError
   \<and> db (snd (updateUser ''profile_1'' empty_patch alex_world)) = Some (Open alex_db)
   \<and> localStorage_db (snd (updateUser ''profile_1'' empty_patch alex_world))
       = Some (Image (Open alex_db))
   \<and> store_rows (snd (updateUser ''profile_1'' empty_patch alex_world)) ''users'' = [alex_row]"
proof -
  have o: "db alex_world = Some (Open alex_db)"
    by (simp add: alex_world_def)
  have "fst (updateUser ''profile_1'' empty_patch alex_world) = Inl SyntaxError
          \<and> db (snd (updateUser ''profile_1'' empty_patch alex_world)) = Some (Open alex_db)
          \<and> localStorage_db (snd (updateUser ''profile_1'' empty_patch alex_world))
              = localStorage_db alex_world"
  proof -
    have h: "p_id empty_patch = None" "p_login empty_patch = None"
      "p_avatar_url empty_patch = None" "p_name empty_patch = None"
      by (simp_all add: empty_patch_def)
    from updateUser_empty_rejected[OF h, of "''profile_1''" alex_world alex_db] o
    show ?thesis by blast
  qed
  then show ?thesis
    by (simp add: store_rows_def alex_world_def alex_db_def)
qed

text \<open>
  An UPDATE whose WHERE clause selects no row changes nothing and raises nothing.
\<close>

lemma entries_keys:
  "set (map fst (entries updates)) \<subseteq> {''id'', ''login'', ''avatar_url'', ''name''}"
  by (auto simp: entries_def split: option.splits)

lemma set_clause_params:
  "sum_list (map ((\<lambda>(c, x). operand_params x) \<circ> (\<lambda>(i, k). (k, Param i))) zs) = length zs"
  by (induction zs) auto

lemma uniq_ok_untouched: "uniq_ok ks (map (Pair False) rs) = True"
  by (induction rs) (auto simp: list_all_iff)

lemma run_update_no_hit:
  assumes "\<forall>r \<in> set (t_rows t). \<not> all_hold bs now wh [(tname td, Some r)]"
  shows "run_update td sets wh bs now t = Inr t"
proof -
  have m: "map (\<lambda>r. if all_hold bs now wh [(tname td, Some r)]
               then (True, fold (\<lambda>(c, x). set_col c (eval_operand bs now [(tname td, Some r)] x)) sets r)
               else (False, r)) (t_rows t) = map (Pair False) (t_rows t)"
    using assms by simp
  have f: "find (\<lambda>(b, r). b \<and> null_violation td r \<noteq> None) (map (Pair False) (t_rows t)) = None"
    by (simp add: find_None_iff)
  have e: "\<not> list_ex (\<lambda>(b, r). b \<and> bad_rowid td r) (map (Pair False) (t_rows t))"
    by (simp add: list_ex_iff)
  have s: "map (snd \<circ> Pair False) (t_rows t) = t_rows t"
    by (simp add: comp_def)
  show ?thesis
    unfolding run_update_def Let_def m using f e by (simp add: uniq_ok_untouched s)
qed

lemma check_updateUser:
  assumes "ks \<noteq> []" and "set ks \<subseteq> {''id'', ''login'', ''avatar_url'', ''name''}"
  shows "check_stmt (Update ''users'' (map (\<lambda>(i, k). (k, Param i)) (zip [0 ..< length ks] ks))
            [Eq (Column ''users'' ''id'') (Param (length ks))]) = None"
proof -
  have "list_all (\<lambda>(c, x). c \<in> set (col_names users_table) \<and> operand_ok [(''users'', users_table)] x)
          (map (\<lambda>(i, k). (k, Param i)) (zip [0 ..< length ks] ks))"
    using assms(2) by (auto simp: list_all_iff col_names_users dest!: set_zip_rightD)
  then show ?thesis
    using assms(1) by (simp add: find_table_names col_names_users)
qed

lemma users_where_id:
  "all_hold (vs @ [Text userId]) now [Eq (Column ''users'' ''id'') (Param (length vs))]
     [(''users'', Some r)] = (col r ''id'' = Text userId)"
  by (auto simp: all_hold_def Let_def nth_append)

lemma updateUser_missing:
  assumes o: "db w = Some (Open d)"
    and absent: "\<forall>r \<in> set (t_rows (d ''users'')). col r ''id'' \<noteq> Text userId"
    and nonempty: "entries updates \<noteq> []"
  shows "updateUser userId updates w = saveDatabase (stepped w d)"
proof -
  let ?ks = "map fst (entries updates)"
  let ?vs = "map (\<lambda>(k, v). Text v) (entries updates)"
  let ?s = "Update ''users''
          (map (\<lambda>(i, k). (k, Param i)) (zip [0 ..< length (entries updates)] ?ks))
          [Eq (Column ''users'' ''id'') (Param (length (entries updates)))]"
  have c: "check_stmt ?s = None"
    using check_updateUser[of ?ks] nonempty entries_keys[of updates] by simp
  have n: "nparams ?s = Suc (length (entries updates))"
    by (simp add: set_clause_params)
  have b: "bind_values (nparams ?s) 0 (map Some (?vs @ [Text userId])) = Inr (?vs @ [Text userId])"
    unfolding n by (rule bind_values_defined) simp
  have nohit: "\<forall>r \<in> set (t_rows (d ''users'')).
      \<not> all_hold (?vs @ [Text userId]) (clock w (tick w))
          [Eq (Column ''users'' ''id'') (Param (length (entries updates)))]
          [(tname users_table, Some r)]"
    using absent users_where_id[of ?vs userId] by (simp add: users_table_def)
  have u: "run_update users_table
        (map (\<lambda>(i, k). (k, Param i)) (zip [0 ..< length (entries updates)] ?ks))
        [Eq (Column ''users'' ''id'') (Param (length (entries updates)))]
        (?vs @ [Text userId]) (clock w (tick w)) (d ''users'') = Inr (d ''users'')"
    by (rule run_update_no_hit[OF nohit])
  have st: "sql_step ?s (?vs @ [Text userId]) (clock w (tick w)) d = Inr ([], d)"
    by (simp add: find_table_names u)
  show ?thesis
    unfolding updateUser_stmt by (rule executeNonQuery_open[OF o c b st])
qed

lemma findIndex_None: "findIndex P xs = None \<longleftrightarrow> list_all (\<lambda>x. \<not> P x) xs"
  by (induction xs) auto

text \<open>
  C8, as the claim states it, fails: on the store that holds only Alex, renaming the
  profile \<^verbatim>\<open>ghost\<close>, which has no row, resolves.
\<close>

theorem updateUser_missing_resolves:
  "store_rows alex_world ''users'' = [alex_row] \<and> col alex_row ''id'' = Text ''profile_1''
   \<and> fst (updateUser ''ghost'' rename_to_sam alex_world) = Inr ()"
  by code_simp

text \<open>
  C8, amended.  \<open>updateUser\<close> for an id that has no row in \<^verbatim>\<open>users\<close>, with a non-empty
  update set, resolves without an error and leaves the database as it was, so it creates no
  row.  \<open>updateProfile\<close> rejects with \<^verbatim>\<open>Profile not found\<close>, touching neither the store
  nor its own state, when the id is not among the profiles the provider has loaded.
\<close>

theorem update_of_missing_profile:
  "(db w = Some (Open d) \<and> list_all (\<lambda>r. col r ''id'' \<noteq> Text userId) (t_rows (d ''users''))
      \<and> entries updates \<noteq> []
    \<longrightarrow> fst (updateUser userId updates w) = Inr ()
        \<and> db (snd (updateUser userId updates w)) = Some (Open d))
   \<and> (list_all (\<lambda>p. u_id p \<noteq> userId) (profiles a)
    \<longrightarrow> updateProfile userId updates a w = (Inl ProfileNotFound, a, w))"
proof (intro conjI impI)
  assume h: "db w = Some (Open d) \<and> list_all (\<lambda>r. col r ''id'' \<noteq> Text userId) (t_rows (d ''users''))
      \<and> entries updates \<noteq> []"
  then have u: "updateUser userId updates w = saveDatabase (stepped w d)"
    by (intro updateUser_missing) (simp_all add: list_all_iff)
  show "fst (updateUser userId updates w) = Inr ()"
    unfolding u by (rule saveDatabase_resolves)
  show "db (snd (updateUser userId updates w)) = Some (Open d)"
    unfolding u by (rule stepped_saved(2))
next
  assume "list_all (\<lambda>p. u_id p \<noteq> userId) (profiles a)"
  then have "findIndex (\<lambda>p. u_id p = userId) (profiles a) = None"
    by (simp add: findIndex_None)
  then show "updateProfile userId updates a w = (Inl ProfileNotFound, a, w)"
    by (simp add: updateProfile_def)
qed

theorem update_of_missing_profile_witness:
  "(fst (updateUser ''ghost'' rename_to_sam alex_world) = Inr ()
    \<and> db (snd (updateUser ''ghost'' rename_to_sam alex_world)) = Some (Open alex_db))
   \<and> updateProfile ''ghost'' rename_to_sam \<lparr>profiles = [alex], user = Some alex\<rparr> alex_world
       = (Inl ProfileNotFound, \<lparr>profiles = [alex], user = Some alex\<rparr>, alex_world)"
proof -
  have h1: "db alex_world = Some (Open alex_db)
      \<and> list_all (\<lambda>r. col r ''id'' \<noteq> Text ''ghost'') (t_rows (alex_db ''users''))
      \<and> entries rename_to_sam \<noteq> []"
    by (simp add: alex_world_def alex_db_def alex_row_def col_def entries_def rename_to_sam_def)
  have h2: "list_all (\<lambda>p. u_id p \<noteq> ''ghost'') (profiles \<lparr>profiles = [alex], user = Some alex\<rparr>)"
    by (simp add: alex_def)
  from update_of_missing_profile[of alex_world alex_db "''ghost''" rename_to_sam
      "\<lparr>profiles = [alex], user = Some alex\<rparr>"] h1 h2
  show ?thesis by blast
qed

section \<open>Deleting a profile\<close>

lemma check_delete_by_user:
  "check_stmt (delete_by_user ''watched_movies'' ''user_id'') = None"
  "check_stmt (delete_by_user ''watched_shows'' ''user_id'') = None"
  "check_stmt (delete_by_user ''watchlist'' ''user_id'') = None"
  "check_stmt (delete_by_user ''users'' ''id'') = None"
  by code_simp+

lemma run_delete_by_user:
  assumes "tname td = t"
  shows "run_delete td [Eq (Column t c) (Param 0)] [Text p] now tb = purge c p tb"
proof -
  have "(\<lambda>r. col r c = Null \<or> col r c \<noteq> Text p) = (\<lambda>r. col r c \<noteq> Text p)"
    by auto
  with assms show ?thesis
    by (simp add: run_delete_def purge_def all_hold_def Let_def)
qed

lemma executeNonQuery_delete_by_user:
  assumes o: "db w = Some (Open d)" and c: "check_stmt (delete_by_user t c) = None"
    and f: "find_table t = Some td" and n: "tname td = t"
  shows "executeNonQuery (delete_by_user t c) [js_string p] w
           = saveDatabase (stepped w (d(t := purge c p (d t))))"
proof -
  have b: "bind_values (nparams (delete_by_user t c)) 0 [js_string p] = Inr [Text p]"
    by (simp add: delete_by_user_def js_string_def)
  have s: "sql_step (delete_by_user t c) [Text p] (clock w (tick w)) d
             = Inr ([], d(t := purge c p (d t)))"
    by (simp add: delete_by_user_def f run_delete_by_user[OF n])
  show ?thesis by (rule executeNonQuery_open[OF o c b s])
qed

lemma deleteUser_open:
  assumes o: "db w = Some (Open d)"
  shows "fst (deleteUser p w) = Inr ()
     \<and> db (snd (deleteUser p w)) =
         Some (Open (d(''watched_movies'' := purge ''user_id'' p (d ''watched_movies''),
                      ''watched_shows'' := purge ''user_id'' p (d ''watched_shows''),
                      ''watchlist'' := purge ''user_id'' p (d ''watchlist''),
                      ''users'' := purge ''id'' p (d ''users''))))"
proof -
  let ?d1 = "d(''watched_movies'' := purge ''user_id'' p (d ''watched_movies''))"
  let ?w1 = "snd (saveDatabase (stepped w ?d1))"
  let ?d2 = "?d1(''watched_shows'' := purge ''user_id'' p (?d1 ''watched_shows''))"
  let ?w2 = "snd (saveDatabase (stepped ?w1 ?d2))"
  let ?d3 = "?d2(''watchlist'' := purge ''user_id'' p (?d2 ''watchlist''))"
  let ?w3 = "snd (saveDatabase (stepped ?w2 ?d3))"
  let ?d4 = "?d3(''users'' := purge ''id'' p (?d3 ''users''))"
  have e1: "executeNonQuery (delete_by_user ''watched_movies'' ''user_id'') [js_string p] w
              = saveDatabase (stepped w ?d1)"
    by (rule executeNonQuery_delete_by_user
          [OF o check_delete_by_user(1) find_table_names(2) tnames(2)])
  have o1: "db ?w1 = Some (Open ?d1)" by (rule stepped_saved(2))
  have e2: "executeNonQuery (delete_by_user ''watched_shows'' ''user_id'') [js_string p] ?w1
              = saveDatabase (stepped ?w1 ?d2)"
    by (rule executeNonQuery_delete_by_user
          [OF o1 check_delete_by_user(2) find_table_names(3) tnames(3)])
  have o2: "db ?w2 = Some (Open ?d2)" by (rule stepped_saved(2))
  have e3: "executeNonQuery (delete_by_user ''watchlist'' ''user_id'') [js_string p] ?w2
              = saveDatabase (stepped ?w2 ?d3)"
    by (rule executeNonQuery_delete_by_user
          [OF o2 check_delete_by_user(3) find_table_names(4) tnames(4)])
  have o3: "db ?w3 = Some (Open ?d3)" by (rule stepped_saved(2))
  have e4: "executeNonQuery (delete_by_user ''users'' ''id'') [js_string p] ?w3
              = saveDatabase (stepped ?w3 ?d4)"
    by (rule executeNonQuery_delete_by_user
          [OF o3 check_delete_by_user(4) find_table_names(1) tnames(1)])
  have r1: "executeNonQuery (delete_by_user ''watched_movies'' ''user_id'') [js_string p] w
              = (Inr (), ?w1)"
    unfolding e1 by (rule stepped_saved(1))
  have r2: "executeNonQuery (delete_by_user ''watched_shows'' ''user_id'') [js_string p] ?w1
              = (Inr (), ?w2)"
    unfolding e2 by (rule stepped_saved(1))
  have r3: "executeNonQuery (delete_by_user ''watchlist'' ''user_id'') [js_string p] ?w2
              = (Inr (), ?w3)"
    unfolding e3 by (rule stepped_saved(1))
  have run: "deleteUser p w = saveDatabase (stepped ?w3 ?d4)"
    unfolding deleteUser_def
    by (simp only:
        bind_io_eq[where m = "executeNonQuery (delete_by_user ''watched_movies'' ''user_id'')
                                [js_string p]", OF r1]
        bind_io_eq[where m = "executeNonQuery (delete_by_user ''watched_shows'' ''user_id'')
                                [js_string p]", OF r2]
        bind_io_eq[where m = "executeNonQuery (delete_by_user ''watchlist'' ''user_id'')
                                [js_string p]", OF r3] e4)
  show ?thesis
    unfolding run by (simp add: saveDatabase_resolves stepped_saved(2))
qed

text \<open>
  C5.  On an open store \<open>deleteUser p\<close> resolves, and afterwards
  \<^item> \<^verbatim>\<open>watched_movies\<close>, \<^verbatim>\<open>watched_shows\<close> and \<^verbatim>\<open>watchlist\<close> hold exactly their former rows
    whose \<^verbatim>\<open>user_id\<close> is not \<open>p\<close>, unchanged and in their former order;
  \<^item> \<^verbatim>\<open>users\<close> holds exactly its former rows whose \<^verbatim>\<open>id\<close> is not \<open>p\<close>;
  \<^item> every other table, \<^verbatim>\<open>movies\<close>, \<^verbatim>\<open>tv_shows\<close> and \<^verbatim>\<open>settings\<close> among them, holds the rows
    it held.
\<close>

theorem deleteUser_cascade:
  assumes "db w = Some (Open d)"
  shows "fst (deleteUser p w) = Inr ()
     \<and> store_rows (snd (deleteUser p w)) ''watched_movies''
         = filter (\<lambda>r. col r ''user_id'' \<noteq> Text p) (store_rows w ''watched_movies'')
     \<and> store_rows (snd (deleteUser p w)) ''watched_shows''
         = filter (\<lambda>r. col r ''user_id'' \<noteq> Text p) (store_rows w ''watched_shows'')
     \<and> store_rows (snd (deleteUser p w)) ''watchlist''
         = filter (\<lambda>r. col r ''user_id'' \<noteq> Text p) (store_rows w ''watchlist'')
     \<and> store_rows (snd (deleteUser p w)) ''users''
         = filter (\<lambda>r. col r ''id'' \<noteq> Text p) (store_rows w ''users'')
     \<and> (\<forall>t. t \<notin> {''watched_movies'', ''watched_shows'', ''watchlist'', ''users''}
            \<longrightarrow> store_rows (snd (deleteUser p w)) t = store_rows w t)
     \<and> store_rows (snd (deleteUser p w)) ''movies'' = store_rows w ''movies''
     \<and> store_rows (snd (deleteUser p w)) ''tv_shows'' = store_rows w ''tv_shows''
     \<and> store_rows (snd (deleteUser p w)) ''settings'' = store_rows w ''settings''"
  using deleteUser_open[OF assms, of p] assms
  by (simp add: store_rows_def purge_def)

theorem deleteUser_cascade_witness:
  "fst (deleteUser ''profile_1'' shared_world) = Inr ()
   \<and> store_rows (snd (deleteUser ''profile_1'' shared_world)) ''watched_movies''
       = [watched_by ''profile_2'' 2]
   \<and> store_rows (snd (deleteUser ''profile_1'' shared_world)) ''watchlist''
       = [listed_by ''profile_2'' 1]
   \<and> store_rows (snd (deleteUser ''profile_1'' shared_world)) ''users'' = [sam_row]
   \<and> store_rows (snd (deleteUser ''profile_1'' shared_world)) ''movies''
       = [movie_row the_matrix ''2024-05-02 10:00:00'']"
proof -
  have o: "db shared_world = Some (Open shared_db)"
    by (simp add: shared_world_def)
  have before:
    "filter (\<lambda>r. col r ''user_id'' \<noteq> Text ''profile_1'') (store_rows shared_world ''watched_movies'')
       = [watched_by ''profile_2'' 2]"
    "filter (\<lambda>r. col r ''user_id'' \<noteq> Text ''profile_1'') (store_rows shared_world ''watchlist'')
       = [listed_by ''profile_2'' 1]"
    "filter (\<lambda>r. col r ''id'' \<noteq> Text ''profile_1'') (store_rows shared_world ''users'') = [sam_row]"
    "store_rows shared_world ''movies'' = [movie_row the_matrix ''2024-05-02 10:00:00'']"
    by code_simp+
  from deleteUser_cascade[OF o, of "''profile_1''"] before show ?thesis
    by simp
qed

section \<open>Marking a movie watched\<close>












section \<open>Reading the watchlist\<close>



text \<open>
  \<open>getWatchlist\<close> returns what the row mapping makes of the rows of its query.
\<close>

lemma getWatchlist_items:
  assumes "getWatchlist parse userId w = (Inr items, w')"
  shows "\<exists>rows. map_throwing (watchlist_item_of_row parse) rows = Inr items"
  using assms
  by (auto simp: getWatchlist_def bind_io_def lift_io_def split: prod.splits sum.splits)



section \<open>What the reading operations return\<close>

text \<open>
  Each of the five reading operations filters on a placeholder.  \<open>executeQuery\<close> leaves
  it unbound, so on every open store the query yields no row: the watchlist and the watched
  lists come back empty and the cache lookups return null, whatever the tables hold and
  whatever \<open>parse\<close> does.
\<close>

lemma check_reads:
  "check_stmt select_watchlist = None"
  "check_stmt select_watched_movies = None"
  "check_stmt select_watched_shows = None"
  "check_stmt (select_by_id ''movies'') = None"
  "check_stmt (select_by_id ''tv_shows'') = None"
  by code_simp+

lemma is_open_db: "is_open w \<Longrightarrow> \<exists>d. db w = Some (Open d)"
  by (auto simp: is_open_def split: option.splits handle.splits)

lemma executeQuery_finds_nothing:
  assumes "db w = Some (Open d)" and "check_stmt q = None"
    and "q = Select ps src joins (Eq x (Param i) # cs) ob lm"
  shows "fst (executeQuery q params w) = Inr []"
  using executeQuery_unbound[OF assms(1), of ps src joins x i cs ob lm params] assms(2,3)
  by simp

lemma bind_io_fst:
  assumes "fst (m w) = Inr x"
  shows "fst (bind_io m f w) = fst (f x (snd (m w)))"
  using assms by (cases "m w") (simp add: bind_io_def)

lemma getWatchlist_empty:
  assumes "db w = Some (Open d)"
  shows "fst (getWatchlist parse userId w) = Inr []"
proof -
  have q: "fst (executeQuery select_watchlist [js_string userId] w) = Inr []"
    by (rule executeQuery_finds_nothing[OF assms check_reads(1) select_watchlist_def])
  show ?thesis
    unfolding getWatchlist_def
    by (simp only: bind_io_fst[where m = "executeQuery select_watchlist [js_string userId]", OF q])
       (simp add: lift_io_def)
qed

lemma getWatchedMovies_empty:
  assumes "db w = Some (Open d)"
  shows "fst (getWatchedMovies parse userId w) = Inr []"
proof -
  have q: "fst (executeQuery select_watched_movies [js_string userId] w) = Inr []"
    by (rule executeQuery_finds_nothing[OF assms check_reads(2) select_watched_movies_def])
  show ?thesis
    unfolding getWatchedMovies_def
    by (simp only: bind_io_fst[where m = "executeQuery select_watched_movies [js_string userId]", OF q])
       (simp add: lift_io_def)
qed

lemma getWatchedShows_empty:
  assumes "db w = Some (Open d)"
  shows "fst (getWatchedShows parse userId w) = Inr []"
proof -
  have q: "fst (executeQuery select_watched_shows [js_string userId] w) = Inr []"
    by (rule executeQuery_finds_nothing[OF assms check_reads(3) select_watched_shows_def])
  show ?thesis
    unfolding getWatchedShows_def
    by (simp only: bind_io_fst[where m = "executeQuery select_watched_shows [js_string userId]", OF q])
       (simp add: lift_io_def)
qed

lemma getCachedMovie_null:
  assumes "db w = Some (Open d)"
  shows "fst (getCachedMovie parse movieId w) = Inr None"
proof -
  have q: "fst (executeQuery (select_by_id ''movies'') [js_int movieId] w) = Inr []"
    by (rule executeQuery_finds_nothing[OF assms check_reads(4) select_by_id_def])
  show ?thesis
    unfolding getCachedMovie_def
    by (simp only: bind_io_fst[where m = "executeQuery (select_by_id ''movies'') [js_int movieId]", OF q])
       (simp add: return_io_def)
qed

lemma getCachedTVShow_null:
  assumes "db w = Some (Open d)"
  shows "fst (getCachedTVShow parse showId w) = Inr None"
proof -
  have q: "fst (executeQuery (select_by_id ''tv_shows'') [js_int showId] w) = Inr []"
    by (rule executeQuery_finds_nothing[OF assms check_reads(5) select_by_id_def])
  show ?thesis
    unfolding getCachedTVShow_def
    by (simp only: bind_io_fst[where m = "executeQuery (select_by_id ''tv_shows'') [js_int showId]", OF q])
       (simp add: return_io_def)
qed

text \<open>
  C1, evaluated on the code.  The store holds the profile Alex.  \<open>addToWatchlist\<close> for the
  movie 603 resolves and the \<^verbatim>\<open>watchlist\<close> table then holds the row of Alex and the movie;
  \<open>getWatchlist\<close> for Alex returns no item.
\<close>

theorem getWatchlist_misses_added_item:
  "fst (addToWatchlist item603 alex_world) = Inr ()
   \<and> store_rows (snd (addToWatchlist item603 alex_world)) ''watchlist''
       = [listed_by ''profile_1'' 1]
   \<and> fst (getWatchlist parse_int_array ''profile_1'' (snd (addToWatchlist item603 alex_world)))
       = Inr []"
proof -
  have written: "fst (addToWatchlist item603 alex_world) = Inr ()
     \<and> store_rows (snd (addToWatchlist item603 alex_world)) ''watchlist''
         = [listed_by ''profile_1'' 1]"
    by code_simp
  have "is_open (snd (addToWatchlist item603 alex_world))"
    by code_simp
  then obtain d where "db (snd (addToWatchlist item603 alex_world)) = Some (Open d)"
    using is_open_db by blast
  from getWatchlist_empty[OF this] written show ?thesis
    by simp
qed

text \<open>
  C2, evaluated on the code.  \<open>addWatchedShow\<close> for a show with watched episodes 1, 2, 3
  resolves and stores the text \<^verbatim>\<open>[1,2,3]\<close>; \<open>getWatchedShows\<close> for the profile returns no
  record, so the list is not read back.
\<close>

theorem getWatchedShows_misses_written_show:
  "fst (addWatchedShow watching_severance alex_world) = Inr ()
   \<and> store_rows (snd (addWatchedShow watching_severance alex_world)) ''watched_shows''
       = [severance_watch_row]
   \<and> col severance_watch_row ''watched_episodes'' = Text ''[1,2,3]''
   \<and> fst (getWatchedShows parse_int_array ''profile_1''
            (snd (addWatchedShow watching_severance alex_world))) = Inr []"
proof -
  have written: "fst (addWatchedShow watching_severance alex_world) = Inr ()
     \<and> store_rows (snd (addWatchedShow watching_severance alex_world)) ''watched_shows''
         = [severance_watch_row]
     \<and> col severance_watch_row ''watched_episodes'' = Text ''[1,2,3]''"
    by code_simp
  have "is_open (snd (addWatchedShow watching_severance alex_world))"
    by code_simp
  then obtain d where "db (snd (addWatchedShow watching_severance alex_world)) = Some (Open d)"
    using is_open_db by blast
  from getWatchedShows_empty[OF this] written show ?thesis
    by simp
qed

section \<open>Decoding the JSON columns\<close>

text \<open>
  The decoding itself propagates a failure of \<open>parse\<close>, and reads an absent or empty
  column as whatever \<open>parse\<close> makes of the text \<^verbatim>\<open>[]\<close>.
\<close>

lemma parse_or_empty_malformed:
  "s \<noteq> [] \<Longrightarrow> parse s = Inl e \<Longrightarrow> parse_or_empty parse (Text s) = Inl e"
  by (simp add: parse_or_empty_def)

lemma parse_or_empty_absent:
  "parse_or_empty parse Null = parse ''[]''"
  "parse_or_empty parse (Text []) = parse ''[]''"
  by (simp_all add: parse_or_empty_def)

lemma decode_cached_malformed:
  assumes "field r ''genre_ids'' = Text s" and "s \<noteq> []" and "parse s = Inl e"
  shows "decode_cached parse r = Inl e"
  using assms by (simp add: decode_cached_def parse_or_empty_def)

lemma watched_show_of_row_malformed:
  assumes "field r ''watched_episodes'' = Text s" and "s \<noteq> []" and "parse s = Inl e"
  shows "watched_show_of_row parse r = Inl e"
  using assms by (simp add: watched_show_of_row_def parse_or_empty_def)

lemma decode_damaged_row:
  "parse_int_array ''[28,878'' = Inl JSONSyntaxError"
  "isl (decode_cached parse_int_array (getAsObject damaged_movie_row))"
  by code_simp+

text \<open>
  C7, evaluated on the code.  The cached movie 603 carries the text \<^verbatim>\<open>[28,878\<close>, which is
  not JSON, in \<^verbatim>\<open>genre_ids\<close>.  No reading operation fails: the cache lookup returns null and
  the watched list and the watchlist of the profile come back empty.
\<close>

theorem reads_do_not_reach_damaged_json:
  "store_rows damaged_world ''movies'' = [damaged_movie_row]
   \<and> col damaged_movie_row ''genre_ids'' = Text ''[28,878''
   \<and> parse_int_array ''[28,878'' = Inl JSONSyntaxError
   \<and> fst (getCachedMovie parse_int_array 603 damaged_world) = Inr None
   \<and> fst (getWatchedMovies parse_int_array ''profile_1'' damaged_world) = Inr []
   \<and> fst (getWatchlist parse_int_array ''profile_1'' damaged_world) = Inr []"
proof -
  have stored: "store_rows damaged_world ''movies'' = [damaged_movie_row]
     \<and> col damaged_movie_row ''genre_ids'' = Text ''[28,878''
     \<and> parse_int_array ''[28,878'' = Inl JSONSyntaxError"
    by code_simp
  have o: "db damaged_world = Some (Open damaged_db)"
    by (simp add: damaged_world_def)
  from stored getCachedMovie_null[OF o] getWatchedMovies_empty[OF o] getWatchlist_empty[OF o]
  show ?thesis by simp
qed

section \<open>A store that is opened by the first operation\<close>

text \<open>
  The theorems above are stated for an open store.  When there is no handle yet, the first
  primitive call runs \<open>initDatabase\<close>: if that fails the operation rejects with its error,
  and if it succeeds the operation behaves as on the store \<open>initDatabase\<close> has opened.
\<close>

lemma initDatabase_opens:
  assumes "db w = None" and "initDatabase w = (Inr h, w1)"
  shows "db w1 = Some h" and "clock w1 = clock w" and "tick w1 = tick w"
  using assms
  by (auto simp: initDatabase_def Let_def
      split: if_splits option.splits stored.splits sum.splits)

lemma open_handle_lazy:
  assumes "db w = None" and "initDatabase w = (Inr h, w1)"
  shows "open_handle w = open_handle w1"
  using initDatabase_opens[OF assms] assms
  by (simp add: open_handle_def)

lemma open_handle_init_fails:
  assumes "db w = None" and "initDatabase w = (Inl e, w1)"
  shows "open_handle w = (Inl e, w1)"
  using assms by (simp add: open_handle_def)

lemma executeNonQuery_lazy:
  assumes "db w = None" and "initDatabase w = (Inr h, w1)"
  shows "executeNonQuery s ps w = executeNonQuery s ps w1"
  by (simp add: executeNonQuery_def bind_io_def open_handle_lazy[OF assms])

lemma executeQuery_lazy:
  assumes "db w = None" and "initDatabase w = (Inr h, w1)"
  shows "executeQuery s ps w = executeQuery s ps w1"
  by (simp add: executeQuery_def bind_io_def open_handle_lazy[OF assms])

lemma executeNonQuery_init_fails:
  assumes "db w = None" and "initDatabase w = (Inl e, w1)"
  shows "executeNonQuery s ps w = (Inl e, w1)"
  by (simp add: executeNonQuery_def bind_io_def open_handle_init_fails[OF assms])

lemma executeQuery_init_fails:
  assumes "db w = None" and "initDatabase w = (Inl e, w1)"
  shows "executeQuery s ps w = (Inl e, w1)"
  by (simp add: executeQuery_def bind_io_def open_handle_init_fails[OF assms])

lemma deleteUser_lazy:
  assumes "db w = None" and "initDatabase w = (Inr h, w1)"
  shows "deleteUser p w = deleteUser p w1"
  by (simp add: deleteUser_def bind_io_def executeNonQuery_lazy[OF assms])

lemma addWatchedMovie_lazy:
  assumes "db w = None" and "initDatabase w = (Inr h, w1)"
  shows "addWatchedMovie wm w = addWatchedMovie wm w1"
  by (simp add: addWatchedMovie_def cacheMovie_def bind_io_def executeNonQuery_lazy[OF assms])

lemma updateUser_lazy:
  assumes "db w = None" and "initDatabase w = (Inr h, w1)"
  shows "updateUser userId updates w = updateUser userId updates w1"
  by (simp add: updateUser_def Let_def executeNonQuery_lazy[OF assms])

text \<open>
  In a browser with no snapshot the first operation opens an empty database.
\<close>

lemma initDatabase_fresh:
  "initDatabase fresh_world
     = (Inr (Open empty_db), fresh_world\<lparr>db := Some (Open empty_db), isInitialized := True\<rparr>)"
  by (simp add: initDatabase_def fresh_world_def Let_def)

end
